theory Spec2Isabelle
  imports Main "HOL-Library.Log_Nat"
begin

section \<open>JavaScript values\<close>

text \<open>
  The module \<^verbatim>\<open>src/main/utils.js\<close> is JavaScript: its functions take and return
  dynamically typed values. The embedding keeps the values the code can tell apart.

  A JavaScript number is an IEEE 754 binary64 value. \<open>Finite neg m e\<close> stands for
  \<open>(-1)^neg * m * 2^e\<close> in canonical form: \<open>0 \<le> m < 2^53\<close>, \<open>-1074 \<le> e \<le> 971\<close>, and
  \<open>2^52 \<le> m\<close> unless \<open>e = -1074\<close> (the subnormal numbers and the two zeros).
\<close>

datatype jsnum = NaN | Infinity bool | Finite bool int int

text \<open>The primitive values, and the values built from them.\<close>

datatype prim =
    Undefined
  | Null
  | Bool bool
  | Num jsnum
  | Str string
  | BigInt int
  | Symbol string

datatype jsval =
    Prim prim
  | Array "jsval list"
  | Object "(string \<times> jsval) list"
  | Function string

text \<open>What a \<^verbatim>\<open>throw\<close> carries, and what a promise rejects with.\<close>

datatype js_error = Error string | TypeError string

section \<open>Number arithmetic\<close>

text \<open>
  \<open>round_shift m k\<close> is \<open>m / 2^k\<close> rounded to the nearest integer, ties to even.
  \<open>ieee_round neg m e\<close> is the binary64 value nearest to \<open>m * 2^e\<close> (\<open>m \<ge> 0\<close>): the
  mantissa is cut to 53 bits, or to fewer where the exponent would fall below
  \<open>-1074\<close>, and a result beyond the largest finite number is an infinity.
\<close>

definition round_shift :: "int \<Rightarrow> int \<Rightarrow> int" where
  "round_shift m k =
     (let q = m div 2 ^ nat k; r = m mod 2 ^ nat k; h = 2 ^ nat (k - 1)
      in if h < r \<or> (r = h \<and> odd q) then q + 1 else q)"

definition ieee_round :: "bool \<Rightarrow> int \<Rightarrow> int \<Rightarrow> jsnum" where
  "ieee_round neg m e =
     (if m = 0 then Finite neg 0 (- 1074)
      else let k = max (bitlen m - 53) (- 1074 - e) in
        if k \<le> 0 then
          (if 971 < e + k then Infinity neg else Finite neg (m * 2 ^ nat (- k)) (e + k))
        else let q = round_shift m k in
          if q = 2 ^ 53 then
            (if 971 < e + k + 1 then Infinity neg else Finite neg (2 ^ 52) (e + k + 1))
          else if 971 < e + k then Infinity neg else Finite neg q (e + k))"

text \<open>
  \<open>ieee_ratio neg n d e\<close> is the binary64 value nearest to \<open>(n / d) * 2^e\<close> for
  \<open>n \<ge> 0\<close> and \<open>d > 0\<close>: the quotient is taken to at least 55 bits and a non-zero
  remainder is kept as a sticky last bit, which rounds as the exact quotient does.
\<close>

definition ieee_ratio :: "bool \<Rightarrow> int \<Rightarrow> int \<Rightarrow> int \<Rightarrow> jsnum" where
  "ieee_ratio neg n d e =
     (let sh = max 0 (bitlen d + 55 - bitlen n);
          q = (n * 2 ^ nat sh) div d;
          r = (n * 2 ^ nat sh) mod d
      in ieee_round neg (2 * q + (if r = 0 then 0 else 1)) (e - sh - 1))"

text \<open>
  A decimal literal of the source: \<open>js_lit n d\<close> is the number the literal with
  value \<open>n / d\<close> denotes (\<^verbatim>\<open>39.37\<close> is \<open>js_lit 3937 100\<close>), and \<open>js_int n\<close> the number
  of a non-negative integer literal or array index.
\<close>

definition js_lit :: "int \<Rightarrow> int \<Rightarrow> jsnum" where
  "js_lit n d = ieee_ratio False n d 0"

definition js_int :: "int \<Rightarrow> jsnum" where
  "js_int n = ieee_round (n < 0) \<bar>n\<bar> 0"

text \<open>The operators \<^verbatim>\<open>*\<close> and \<^verbatim>\<open>/\<close> on two numbers.\<close>

fun js_mul :: "jsnum \<Rightarrow> jsnum \<Rightarrow> jsnum" where
  "js_mul NaN y = NaN"
| "js_mul x NaN = NaN"
| "js_mul (Infinity s) (Infinity t) = Infinity (s \<noteq> t)"
| "js_mul (Infinity s) (Finite t n f) = (if n = 0 then NaN else Infinity (s \<noteq> t))"
| "js_mul (Finite s m e) (Infinity t) = (if m = 0 then NaN else Infinity (s \<noteq> t))"
| "js_mul (Finite s m e) (Finite t n f) = ieee_round (s \<noteq> t) (m * n) (e + f)"

fun js_div :: "jsnum \<Rightarrow> jsnum \<Rightarrow> jsnum" where
  "js_div NaN y = NaN"
| "js_div x NaN = NaN"
| "js_div (Infinity s) (Infinity t) = NaN"
| "js_div (Infinity s) (Finite t n f) = Infinity (s \<noteq> t)"
| "js_div (Finite s m e) (Infinity t) = Finite (s \<noteq> t) 0 (- 1074)"
| "js_div (Finite s m e) (Finite t n f) =
     (if n = 0 then (if m = 0 then NaN else Infinity (s \<noteq> t))
      else ieee_ratio (s \<noteq> t) m n (e - f))"

text \<open>The comparison \<^verbatim>\<open>==\<close> of two numbers: NaN equals nothing, the two zeros are equal.\<close>

fun is_zero :: "jsnum \<Rightarrow> bool" where
  "is_zero (Finite s m e) = (m = 0)"
| "is_zero x = False"

definition js_eq :: "jsnum \<Rightarrow> jsnum \<Rightarrow> bool" where
  "js_eq x y = (x \<noteq> NaN \<and> y \<noteq> NaN \<and> (x = y \<or> (is_zero x \<and> is_zero y)))"

section \<open>Conversions\<close>

text \<open>\<^verbatim>\<open>ToBoolean\<close>, which decides \<^verbatim>\<open>x ? a : b\<close>, \<^verbatim>\<open>!x\<close> and \<^verbatim>\<open>if (x)\<close>.\<close>

fun truthy_prim :: "prim \<Rightarrow> bool" where
  "truthy_prim Undefined = False"
| "truthy_prim Null = False"
| "truthy_prim (Bool b) = b"
| "truthy_prim (Num x) = (x \<noteq> NaN \<and> \<not> is_zero x)"
| "truthy_prim (Str s) = (s \<noteq> [])"
| "truthy_prim (BigInt n) = (n \<noteq> 0)"
| "truthy_prim (Symbol d) = True"

fun truthy :: "jsval \<Rightarrow> bool" where
  "truthy (Prim p) = truthy_prim p"
| "truthy v = True"

text \<open>
  The library functions and collaborators the module imports or calls, none of them
  part of this repository, are the fields of an environment:
  \<^item> \<open>METERS_PER_UNIT\<close>, the table of \<^verbatim>\<open>ol/proj/Units\<close>, from unit names to numbers;
  \<^item> \<open>parseFloat_string\<close> and \<open>stringToNumber\<close>, the built-in \<^verbatim>\<open>parseFloat\<close> and
    \<^verbatim>\<open>ToNumber\<close> on a non-empty string, and \<open>numberToString\<close>, the built-in
    conversion of a number to a string;
  \<^item> \<open>toLonLat\<close> of \<^verbatim>\<open>ol/proj\<close>, which may throw;
  \<^item> \<open>writeFeaturesObject\<close> of \<^verbatim>\<open>ol/format/GeoJSON\<close>, which may throw;
  \<^item> \<open>readStyle\<close> of the style parser: what its promise resolves with (\<open>Inr\<close>) or
    rejects with (\<open>Inl\<close>).
\<close>

record js_env =
  METERS_PER_UNIT :: "string \<rightharpoonup> jsnum"
  parseFloat_string :: "string \<Rightarrow> jsnum"
  stringToNumber :: "string \<Rightarrow> jsnum"
  numberToString :: "jsnum \<Rightarrow> string"
  toLonLat :: "jsval \<Rightarrow> prim \<Rightarrow> js_error + jsval"
  writeFeaturesObject :: "jsval list \<Rightarrow> js_error + jsval"
  readStyle :: "jsval \<Rightarrow> js_error + jsval"

text \<open>The decimal digits of an integer, as \<^verbatim>\<open>ToString\<close> writes a BigInt.\<close>

fun digits :: "nat \<Rightarrow> string" where
  "digits n =
     (if n < 10 then [char_of (48 + n)] else digits (n div 10) @ [char_of (48 + n mod 10)])"

declare digits.simps [simp del]

definition bigint_to_string :: "int \<Rightarrow> string" where
  "bigint_to_string n = (if n < 0 then CHR ''-'' # digits (nat (- n)) else digits (nat n))"

text \<open>
  \<^verbatim>\<open>ToPropertyKey\<close>: the key under which \<^verbatim>\<open>table[x]\<close> looks. A symbol is a key of its
  own, never a string (\<open>None\<close>).
\<close>

fun to_property_key :: "js_env \<Rightarrow> prim \<Rightarrow> string option" where
  "to_property_key env Undefined = Some ''undefined''"
| "to_property_key env Null = Some ''null''"
| "to_property_key env (Bool b) = Some (if b then ''true'' else ''false'')"
| "to_property_key env (Num x) = Some (numberToString env x)"
| "to_property_key env (Str s) = Some s"
| "to_property_key env (BigInt n) = Some (bigint_to_string n)"
| "to_property_key env (Symbol d) = None"

text \<open>
  \<^verbatim>\<open>METERS_PER_UNIT[units]\<close>: the entry of the table, \<^verbatim>\<open>undefined\<close> where the table
  has none. (A key that names a property inherited from \<^verbatim>\<open>Object.prototype\<close>, such as
  \<^verbatim>\<open>toString\<close>, yields a function or an object, which \<^verbatim>\<open>*\<close> turns into NaN as it
  does \<^verbatim>\<open>undefined\<close>; the model does not tell these keys from a missing one.)
\<close>

definition lookup_METERS_PER_UNIT :: "js_env \<Rightarrow> prim \<Rightarrow> prim" where
  "lookup_METERS_PER_UNIT env units =
     (case to_property_key env units of
        None \<Rightarrow> Undefined
      | Some k \<Rightarrow> (case METERS_PER_UNIT env k of None \<Rightarrow> Undefined | Some x \<Rightarrow> Num x))"

text \<open>
  The built-in \<^verbatim>\<open>parseFloat\<close>: its argument is turned into a string and the longest
  decimal prefix of that is read. The string of a number reads back as that number,
  except that \<^verbatim>\<open>-0\<close> is written \<^verbatim>\<open>0\<close>; the strings \<^verbatim>\<open>undefined\<close>, \<^verbatim>\<open>null\<close>,
  \<^verbatim>\<open>true\<close> and \<^verbatim>\<open>false\<close> read as NaN; a symbol has no string.
\<close>

fun parseFloat :: "js_env \<Rightarrow> prim \<Rightarrow> js_error + jsnum" where
  "parseFloat env Undefined = Inr NaN"
| "parseFloat env Null = Inr NaN"
| "parseFloat env (Bool b) = Inr NaN"
| "parseFloat env (Num x) = Inr (if is_zero x then Finite False 0 (- 1074) else x)"
| "parseFloat env (Str s) = Inr (parseFloat_string env s)"
| "parseFloat env (BigInt n) = Inr (js_int n)"
| "parseFloat env (Symbol d) = Inl (TypeError ''Cannot convert a Symbol value to a string'')"

text \<open>
  \<^verbatim>\<open>ToNumeric\<close>, applied by \<^verbatim>\<open>*\<close> to each operand: a number, a BigInt (kept as it
  is), or a TypeError for a symbol.
\<close>

fun to_numeric :: "js_env \<Rightarrow> prim \<Rightarrow> js_error + prim" where
  "to_numeric env Undefined = Inr (Num NaN)"
| "to_numeric env Null = Inr (Num (Finite False 0 (- 1074)))"
| "to_numeric env (Bool b) = Inr (Num (if b then js_int 1 else Finite False 0 (- 1074)))"
| "to_numeric env (Num x) = Inr (Num x)"
| "to_numeric env (Str s) =
     Inr (Num (if s = [] then Finite False 0 (- 1074) else stringToNumber env s))"
| "to_numeric env (BigInt n) = Inr (BigInt n)"
| "to_numeric env (Symbol d) = Inl (TypeError ''Cannot convert a Symbol value to a number'')"

text \<open>
  The operator \<^verbatim>\<open>*\<close> on two primitive values: both operands are converted, left
  first; two numbers are multiplied, two BigInts are multiplied as integers, and a
  BigInt with a number is a TypeError.
\<close>

definition js_times :: "js_env \<Rightarrow> prim \<Rightarrow> prim \<Rightarrow> js_error + prim" where
  "js_times env a b =
     (case to_numeric env a of
        Inl err \<Rightarrow> Inl err
      | Inr x \<Rightarrow>
          (case to_numeric env b of
             Inl err \<Rightarrow> Inl err
           | Inr y \<Rightarrow>
               (case (x, y) of
                  (Num p, Num q) \<Rightarrow> Inr (Num (js_mul p q))
                | (BigInt p, BigInt q) \<Rightarrow> Inr (BigInt (p * q))
                | _ \<Rightarrow> Inl (TypeError ''Cannot mix BigInt and other types''))))"

section \<open>The scale calculator\<close>

text \<open>
  \<^verbatim>\<open>
  export function getScaleForResolution(resolution, units) {
    var dpi = 25.4 / 0.28;
    var mpu = METERS_PER_UNIT[units];
    var inchesPerMeter = 39.37;
    return (resolution ? parseFloat(resolution) : resolution) * mpu * inchesPerMeter * dpi;
  }
  \<close>
  Every step that can throw is a branch: \<^verbatim>\<open>parseFloat\<close> of a symbol, and each \<^verbatim>\<open>*\<close>.
\<close>

definition getScaleForResolution :: "js_env \<Rightarrow> prim \<Rightarrow> prim \<Rightarrow> js_error + prim" where
  "getScaleForResolution env resolution units =
     (let dpi = js_div (js_lit 254 10) (js_lit 28 100);
          mpu = lookup_METERS_PER_UNIT env units;
          inchesPerMeter = js_lit 3937 100
      in case (if truthy_prim resolution
               then map_sum id Num (parseFloat env resolution)
               else Inr resolution) of
           Inl err \<Rightarrow> Inl err
         | Inr r \<Rightarrow>
             (case js_times env r mpu of
                Inl err \<Rightarrow> Inl err
              | Inr a \<Rightarrow>
                  (case js_times env a (Num inchesPerMeter) of
                     Inl err \<Rightarrow> Inl err
                   | Inr b \<Rightarrow> js_times env b (Num dpi))))"

section \<open>The map and its layers\<close>

text \<open>
  What the code reads from an OpenLayers source, by the class it is an instance of.
  The classes \<^verbatim>\<open>TileWMS\<close>, \<^verbatim>\<open>ImageWMS\<close>, \<^verbatim>\<open>WMTS\<close>, \<^verbatim>\<open>OSM\<close> and \<^verbatim>\<open>VectorSource\<close> do
  not extend one another, so a source is an instance of at most one of them;
  \<open>OtherSource\<close> is a source of any other class. An accessor that can return
  \<^verbatim>\<open>null\<close> or \<^verbatim>\<open>undefined\<close> has an option type.
\<close>

record tilegrid =
  getResolutions :: "jsval list"
  getExtent :: jsval
  getMatrixIds :: "jsval list"

record wmts_source =
  wmts_getRequestEncoding :: jsval
  wmts_getUrls :: "string list option"
  wmts_getLayer :: jsval
  wmts_getProjection :: "jsval option"
  wmts_getMatrixSet :: jsval
  wmts_getTileGrid :: "tilegrid option"
  wmts_getFormat :: jsval

datatype source =
    TileWMS "string list option" "(string \<times> jsval) list option"
  | ImageWMS "string option" "(string \<times> jsval) list option"
  | WMTS wmts_source
  | OSM "string list option"
  | VectorSource "jsval list"
  | OtherSource string

text \<open>
  A layer: its source, its opacity, whether it is an instance of \<^verbatim>\<open>VectorLayer\<close>, and
  what \<^verbatim>\<open>getStyle()\<close> returns (a style object, an array of them, a style function,
  \<^verbatim>\<open>null\<close> or \<^verbatim>\<open>undefined\<close>).
\<close>

record ollayer =
  getSource :: source
  getOpacity :: jsval
  instanceof_VectorLayer :: bool
  getStyle :: jsval

text \<open>
  The map: the units and the code of the view's projection, the view's resolution
  and center, and the layers in order.
\<close>

record olmap =
  getUnits :: prim
  getResolution :: prim
  getCode :: prim
  getCenter :: jsval
  getLayers :: "ollayer list"

section \<open>Objects, effects and promises\<close>

text \<open>
  An object literal is the list of its properties in the order written. \<open>get_prop\<close>
  reads a property that no prototype defines: \<^verbatim>\<open>undefined\<close> where the value has no
  such property of its own, and a TypeError on \<^verbatim>\<open>null\<close> and \<^verbatim>\<open>undefined\<close>.
  \<open>has_prop\<close> tells a property that is absent from one that holds \<^verbatim>\<open>undefined\<close>.
\<close>

definition str :: "string \<Rightarrow> jsval" where
  "str s = Prim (Str s)"

definition undefined_value :: jsval where
  "undefined_value = Prim Undefined"

fun get_prop :: "jsval \<Rightarrow> string \<Rightarrow> js_error + jsval" where
  "get_prop (Prim Undefined) k = Inl (TypeError ''Cannot read properties of undefined'')"
| "get_prop (Prim Null) k = Inl (TypeError ''Cannot read properties of null'')"
| "get_prop (Object ps) k = Inr (case map_of ps k of None \<Rightarrow> undefined_value | Some v \<Rightarrow> v)"
| "get_prop v k = Inr undefined_value"

fun has_prop :: "jsval \<Rightarrow> string \<Rightarrow> bool" where
  "has_prop (Object ps) k = (k \<in> fst ` set ps)"
| "has_prop v k = False"

text \<open>\<^verbatim>\<open>config.style = v\<close> on an object that has the property: the order is kept.\<close>

fun set_prop :: "string \<Rightarrow> jsval \<Rightarrow> (string \<times> jsval) list \<Rightarrow> (string \<times> jsval) list" where
  "set_prop k v [] = [(k, v)]"
| "set_prop k v (p # ps) = (if fst p = k then (k, v) # ps else p # set_prop k v ps)"

text \<open>
  What one call of \<^verbatim>\<open>mapOlLayerToInkmap\<close> does besides returning: the call of the
  style parser with its argument, and the lines it writes to the console.
\<close>

datatype layer_event =
    Call_readStyle jsval
  | Console_log string jsval
  | Console_error string jsval
  | Console_warn string jsval

text \<open>
  What one call of \<^verbatim>\<open>fromOlMap\<close> does: its first console line, one \<open>Translate\<close> for
  each call of \<^verbatim>\<open>mapOlLayerToInkmap\<close>, holding that call's own events in their
  order, and the console line of the \<^verbatim>\<open>catch\<close> handler. The calls run interleaved at
  their \<^verbatim>\<open>await\<close>; the order of events of different calls is not modelled.
\<close>

datatype event =
    Console_log_olMap
  | Translate "layer_event list"
  | Console_error_caught js_error

text \<open>
  How a call ends: it throws, or it returns a promise that rejects (with \<open>None\<close> for
  \<^verbatim>\<open>Promise.reject()\<close>, which gives no reason) or resolves.
\<close>

datatype 'a outcome = Throws js_error | Rejects "js_error option" | Resolves 'a

text \<open>
  \<^verbatim>\<open>Promise.all\<close>: the list of all values, or a rejection if one promise rejects.
  When several reject, the reason is that of the first to settle; the model takes
  the first in the list.
\<close>

fun promise_all :: "(js_error + 'a) list \<Rightarrow> js_error + 'a list" where
  "promise_all [] = Inr []"
| "promise_all (p # ps) =
     (case p of
        Inl err \<Rightarrow> Inl err
      | Inr v \<Rightarrow> (case promise_all ps of Inl err \<Rightarrow> Inl err | Inr vs \<Rightarrow> Inr (v # vs)))"

section \<open>The layer translator\<close>

text \<open>\<^verbatim>\<open>source.getUrls()?.[0] ?? ''\<close> and \<^verbatim>\<open>source.getUrl() ?? ''\<close>.\<close>

definition first_url :: "string list option \<Rightarrow> jsval" where
  "first_url urls =
     (case urls of None \<Rightarrow> str [] | Some [] \<Rightarrow> str [] | Some (u # us) \<Rightarrow> str u)"

definition url_or_empty :: "string option \<Rightarrow> jsval" where
  "url_or_empty url = (case url of None \<Rightarrow> str [] | Some u \<Rightarrow> str u)"

text \<open>\<^verbatim>\<open>source.getParams()?.LAYERS\<close>.\<close>

definition params_LAYERS :: "(string \<times> jsval) list option \<Rightarrow> jsval" where
  "params_LAYERS params =
     (case params of
        None \<Rightarrow> undefined_value
      | Some ps \<Rightarrow> (case map_of ps ''LAYERS'' of None \<Rightarrow> undefined_value | Some v \<Rightarrow> v))"

text \<open>\<^verbatim>\<open>resolutions?.map((res, idx) => idx)\<close> and the \<^verbatim>\<open>tileGrid\<close> literal of the WMTS branch.\<close>

definition index_array :: "jsval list \<Rightarrow> jsval" where
  "index_array resolutions = Array (map (\<lambda>idx. Prim (Num (js_int (int idx)))) [0..<length resolutions])"

definition wmts_tileGrid :: "tilegrid option \<Rightarrow> jsval" where
  "wmts_tileGrid olTileGrid =
     (let resolutions = map_option getResolutions olTileGrid;
          matrixIds = (case resolutions of None \<Rightarrow> undefined_value | Some rs \<Rightarrow> index_array rs)
      in Object
           [(''resolutions'', case olTileGrid of None \<Rightarrow> undefined_value | Some g \<Rightarrow> Array (getResolutions g)),
            (''extent'', case olTileGrid of None \<Rightarrow> undefined_value | Some g \<Rightarrow> getExtent g),
            (''matrixIds'', matrixIds)])"

text \<open>
  The attribution of the OSM branch starts with the copyright sign, written here as
  the two bytes of its UTF-8 encoding.
\<close>

definition osm_attribution :: string where
  "osm_attribution = CHR 0xC2 # CHR 0xA9 # '' OpenStreetMap (www.openstreetmap.org)''"

text \<open>
  The part of the vector branch after \<^verbatim>\<open>await parser.readStyle(olStyle)\<close> has
  resolved with \<open>gsStyle\<close>: the console lines, and \<^verbatim>\<open>config.style = gsStyle.output\<close>.
  Reading \<^verbatim>\<open>gsStyle.errors\<close> throws when \<open>gsStyle\<close> is \<^verbatim>\<open>null\<close> or \<^verbatim>\<open>undefined\<close>.
\<close>

definition after_readStyle ::
  "(string \<times> jsval) list \<Rightarrow> jsval \<Rightarrow> layer_event list \<times> (js_error + jsval)" where
  "after_readStyle config gsStyle =
     (case get_prop gsStyle ''errors'' of
        Inl err \<Rightarrow> ([Console_log ''gsStyle'' gsStyle], Inl err)
      | Inr errors \<Rightarrow>
          (case get_prop gsStyle ''warnings'' of
             Inl err \<Rightarrow> ([Console_log ''gsStyle'' gsStyle], Inl err)
           | Inr warnings \<Rightarrow>
               (case get_prop gsStyle ''unsupportedProperties'' of
                  Inl err \<Rightarrow> ([Console_log ''gsStyle'' gsStyle], Inl err)
                | Inr unsupportedProperties \<Rightarrow>
                    (case get_prop gsStyle ''output'' of
                       Inl err \<Rightarrow> ([Console_log ''gsStyle'' gsStyle], Inl err)
                     | Inr output \<Rightarrow>
                         ([Console_log ''gsStyle'' gsStyle]
                          @ (if truthy errors
                             then [Console_error ''Geostyler errors: '' errors] else [])
                          @ (if truthy warnings
                             then [Console_warn ''Geostyler warnings: '' warnings] else [])
                          @ (if truthy unsupportedProperties
                             then [Console_warn ''Detected unsupported style properties: ''
                                     unsupportedProperties]
                             else []),
                          Inr (Object (set_prop ''style'' output config)))))))"

text \<open>
  \<^verbatim>\<open>mapOlLayerToInkmap\<close> is an \<^verbatim>\<open>async\<close> function: it returns a promise, which
  resolves with the value returned (\<open>Inr\<close>) and rejects with whatever is thrown
  inside (\<open>Inl\<close>). The branches are tried in the order of the source.
\<close>

definition mapOlLayerToInkmap ::
  "js_env \<Rightarrow> ollayer \<Rightarrow> layer_event list \<times> (js_error + jsval)" where
  "mapOlLayerToInkmap env olLayer =
     (let opacity = getOpacity olLayer in
      case getSource olLayer of
        TileWMS urls params \<Rightarrow>
          ([], Inr (Object
             [(''type'', str ''WMS''),
              (''url'', first_url urls),
              (''opacity'', opacity),
              (''attribution'', str []),
              (''layer'', params_LAYERS params),
              (''tiled'', Prim (Bool True))]))
      | ImageWMS url params \<Rightarrow>
          ([], Inr (Object
             [(''type'', str ''WMS''),
              (''url'', url_or_empty url),
              (''opacity'', opacity),
              (''attribution'', str []),
              (''layer'', params_LAYERS params),
              (''tiled'', Prim (Bool False))]))
      | WMTS src \<Rightarrow>
          (let tileGrid = wmts_tileGrid (wmts_getTileGrid src) in
           case wmts_getProjection src of
             None \<Rightarrow> ([], Inl (TypeError ''Cannot read properties of null (reading getCode)''))
           | Some code \<Rightarrow>
               ([], Inr (Object
                  [(''type'', str ''WMTS''),
                   (''requestEncoding'', wmts_getRequestEncoding src),
                   (''url'', first_url (wmts_getUrls src)),
                   (''layer'', wmts_getLayer src),
                   (''projection'', code),
                   (''matrixSet'', wmts_getMatrixSet src),
                   (''tileGrid'', tileGrid),
                   (''format'', wmts_getFormat src),
                   (''opacity'', opacity),
                   (''attribution'', str [])])))
      | OSM urls \<Rightarrow>
          ([], Inr (Object
             [(''type'', str ''XYZ''),
              (''url'', str ''https://{a-c}.tile.openstreetmap.org/{z}/{x}/{y}.png''),
              (''opacity'', opacity),
              (''attribution'', str osm_attribution),
              (''tiled'', Prim (Bool True))]))
      | VectorSource features \<Rightarrow>
          (case writeFeaturesObject env features of
             Inl err \<Rightarrow> ([], Inl err)
           | Inr geojson \<Rightarrow>
               (let config =
                      [(''type'', str ''GeoJSON''),
                       (''geojson'', geojson),
                       (''style'', undefined_value),
                       (''attribution'', str [])];
                    olStyle = (if instanceof_VectorLayer olLayer then getStyle olLayer else Prim Null)
                in if truthy olStyle
                   then (case readStyle env olStyle of
                           Inl err \<Rightarrow> ([Call_readStyle olStyle], Inl err)
                         | Inr gsStyle \<Rightarrow>
                             (let (evs, res) = after_readStyle config gsStyle
                              in (Call_readStyle olStyle # evs, res)))
                   else ([], Inr (Object config))))
      | OtherSource c \<Rightarrow> ([], Inr (Prim Null)))"

section \<open>The spec assembler\<close>

text \<open>
  \<^verbatim>\<open>fromOlMap\<close>. The scale is computed before the check of the view state, as in the
  source; the check throws before \<^verbatim>\<open>toLonLat\<close> and before any layer is translated. In
  the \<^verbatim>\<open>then\<close> handler, \<^verbatim>\<open>responses.filter(l => l !== null)\<close> drops the results that
  are \<^verbatim>\<open>null\<close>; the \<^verbatim>\<open>catch\<close> handler writes the reason to the console and returns
  \<^verbatim>\<open>Promise.reject()\<close>.
\<close>

definition incomplete_view_state :: js_error where
  "incomplete_view_state = Error ''Can not determine unit / resolution from map''"

definition fromOlMap :: "js_env \<Rightarrow> olmap \<Rightarrow> event list \<times> jsval outcome" where
  "fromOlMap env olMap =
     (let unit = getUnits olMap;
          resolution = getResolution olMap;
          projection = getCode olMap
      in case getScaleForResolution env resolution unit of
           Inl err \<Rightarrow> ([Console_log_olMap], Throws err)
         | Inr scale \<Rightarrow>
             (let center = getCenter olMap
              in if \<not> truthy_prim unit \<or> \<not> truthy center
                    \<or> resolution = Null \<or> resolution = Undefined
                 then ([Console_log_olMap], Throws incomplete_view_state)
                 else
                   (case toLonLat env center projection of
                      Inl err \<Rightarrow> ([Console_log_olMap], Throws err)
                    | Inr centerLonLat \<Rightarrow>
                        (let layerPromises = map (mapOlLayerToInkmap env) (getLayers olMap);
                             started = Console_log_olMap # map (\<lambda>p. Translate (fst p)) layerPromises
                         in case promise_all (map snd layerPromises) of
                              Inl err \<Rightarrow> (started @ [Console_error_caught err], Rejects None)
                            | Inr responses \<Rightarrow>
                                (let layers = filter (\<lambda>l. l \<noteq> Prim Null) responses;
                                     config = Object
                                       [(''layers'', Array layers),
                                        (''size'', Array [Prim (Num (js_int 400)),
                                                          Prim (Num (js_int 240)), str ''mm'']),
                                        (''center'', centerLonLat),
                                        (''dpi'', Prim (Num (js_int 120))),
                                        (''scale'', Prim scale),
                                        (''scaleBar'', Object
                                           [(''position'', str ''bottom-left''),
                                            (''units'', str ''metric'')]),
                                        (''projection'', Prim projection),
                                        (''northArrow'', str ''top-right''),
                                        (''attributions'', str ''bottom-right'')]
                                 in (started, Resolves config))))))"

section \<open>Properties stated of the code\<close>

text \<open>The five classes of source that \<^verbatim>\<open>mapOlLayerToInkmap\<close> has a branch for.\<close>

fun recognized :: "source \<Rightarrow> bool" where
  "recognized (OtherSource c) = False"
| "recognized s = True"

fun is_VectorSource :: "source \<Rightarrow> bool" where
  "is_VectorSource (VectorSource fs) = True"
| "is_VectorSource s = False"

text \<open>
  The formula of the scale in the words of the specification,
  \<^verbatim>\<open>resolution * metersPerUnit(units) * 39.37 * (25.4/0.28)\<close>, on numbers.
\<close>

definition scale_formula :: "jsnum \<Rightarrow> jsnum \<Rightarrow> jsnum" where
  "scale_formula r mpu =
     js_mul (js_mul (js_mul r mpu) (js_lit 3937 100)) (js_div (js_lit 254 10) (js_lit 28 100))"

text \<open>
  \<open>is_double\<close>: the representation is canonical. \<open>no_underflow\<close>: an infinity, or a
  finite number of magnitude \<open>2^-1021\<close> or more, which is beyond the subnormal range
  and the lowest binade of the normal one.
\<close>

fun is_double :: "jsnum \<Rightarrow> bool" where
  "is_double (Finite s m e) =
     (0 \<le> m \<and> m < 2 ^ 53 \<and> - 1074 \<le> e \<and> e \<le> 971 \<and> (2 ^ 52 \<le> m \<or> e = - 1074))"
| "is_double x = True"

fun is_finite :: "jsnum \<Rightarrow> bool" where
  "is_finite (Finite s m e) = True"
| "is_finite x = False"

fun no_underflow :: "jsnum \<Rightarrow> bool" where
  "no_underflow (Finite s m e) = (- 1074 < e)"
| "no_underflow (Infinity s) = True"
| "no_underflow NaN = False"

text \<open>
  The part of \<^verbatim>\<open>fromOlMap\<close> before the layers completes: the scale is computed,
  the check of the view state passes, and \<^verbatim>\<open>toLonLat\<close> returns.
\<close>

definition view_state_ok :: "js_env \<Rightarrow> olmap \<Rightarrow> bool" where
  "view_state_ok env olMap =
     (\<not> isl (getScaleForResolution env (getResolution olMap) (getUnits olMap))
      \<and> truthy_prim (getUnits olMap) \<and> truthy (getCenter olMap)
      \<and> getResolution olMap \<noteq> Null \<and> getResolution olMap \<noteq> Undefined
      \<and> \<not> isl (toLonLat env (getCenter olMap) (getCode olMap)))"

section \<open>Concrete inputs\<close>

text \<open>
  An environment to evaluate the code in. Its table has the entries of
  \<^verbatim>\<open>METERS_PER_UNIT\<close> for metres and feet. Its collaborators are simple ones: \<open>toLonLat\<close>
  returns the center as it is (as for a view whose coordinates are longitude and
  latitude already, and at the origin of the Web Mercator projection); the GeoJSON
  writer wraps the features in a collection; the style parser rejects an empty array
  of styles, resolves with the stored style of a style function that it has written
  itself, reports an error for any other style function, and resolves with an
  output for any other style. The conversions between strings and numbers are
  given where the examples use them.
\<close>

definition demo_env :: js_env where
  "demo_env =
     \<lparr>METERS_PER_UNIT = [''m'' \<mapsto> js_int 1, ''ft'' \<mapsto> js_lit 3048 10000],
      parseFloat_string = (\<lambda>s. if s = ''2.5'' then js_lit 25 10 else NaN),
      stringToNumber = (\<lambda>s. if s = ''2.5'' then js_lit 25 10 else NaN),
      numberToString = (\<lambda>x. ''NaN''),
      toLonLat = (\<lambda>center projection. Inr center),
      writeFeaturesObject =
        (\<lambda>features. Inr (Object [(''type'', str ''FeatureCollection''),
                                 (''features'', Array features)])),
      readStyle =
        (\<lambda>olStyle. case olStyle of
             Array [] \<Rightarrow> Inl (Error ''no style to read'')
           | Function f \<Rightarrow>
               (if f = ''geoStylerStyleFunction''
                then Inr (Object [(''output'', Object [(''name'', str ''GeoStyler Style''),
                                                       (''rules'', Array [])])])
                else Inr (Object [(''errors'', Array [str ''not a style''])]))
           | _ \<Rightarrow> Inr (Object [(''output'', Object [(''name'', str ''OL Style''),
                                                    (''rules'', Array [olStyle])])]))\<rparr>"

definition origin :: jsval where
  "origin = Array [Prim (Num (js_int 0)), Prim (Num (js_int 0))]"

definition half :: jsval where
  "half = Prim (Num (js_lit 5 10))"

definition layer_osm :: ollayer where
  "layer_osm =
     \<lparr>getSource = OSM (Some [''https://tiles.example.org/{z}/{x}/{y}.png'']),
      getOpacity = Prim (Num (js_int 1)),
      instanceof_VectorLayer = False,
      getStyle = undefined_value\<rparr>"

definition layer_tilewms :: ollayer where
  "layer_tilewms =
     \<lparr>getSource = TileWMS (Some [''http://x/wms'']) (Some [(''LAYERS'', str ''foo'')]),
      getOpacity = half,
      instanceof_VectorLayer = False,
      getStyle = undefined_value\<rparr>"

definition layer_wmts :: ollayer where
  "layer_wmts =
     \<lparr>getSource = WMTS
        \<lparr>wmts_getRequestEncoding = str ''KVP'',
         wmts_getUrls = Some [''https://mrdata.usgs.gov/mapcache/wmts''],
         wmts_getLayer = str ''sgmc2'',
         wmts_getProjection = Some (str ''EPSG:3857''),
         wmts_getMatrixSet = str ''GoogleMapsCompatible'',
         wmts_getTileGrid = Some
           \<lparr>getResolutions = [Prim (Num (js_int 4)), Prim (Num (js_int 2)), Prim (Num (js_int 1))],
            getExtent = undefined_value,
            getMatrixIds = [str ''EPSG:3857:0'', str ''EPSG:3857:1'', str ''EPSG:3857:2'']\<rparr>,
         wmts_getFormat = str ''image/png''\<rparr>,
      getOpacity = half,
      instanceof_VectorLayer = False,
      getStyle = undefined_value\<rparr>"

definition layer_unrecognized :: ollayer where
  "layer_unrecognized =
     \<lparr>getSource = OtherSource ''BingMaps'',
      getOpacity = Prim (Num (js_int 1)),
      instanceof_VectorLayer = False,
      getStyle = undefined_value\<rparr>"

definition layer_vector :: "jsval \<Rightarrow> ollayer" where
  "layer_vector style =
     \<lparr>getSource = VectorSource [],
      getOpacity = half,
      instanceof_VectorLayer = True,
      getStyle = style\<rparr>"

definition uniform_style :: jsval where
  "uniform_style = Object [(''stroke'', Object [(''color'', str ''#0000FF'')])]"

definition demo_map :: "prim \<Rightarrow> prim \<Rightarrow> ollayer list \<Rightarrow> olmap" where
  "demo_map resolution projection layers =
     \<lparr>getUnits = Str ''m'',
      getResolution = resolution,
      getCode = projection,
      getCenter = origin,
      getLayers = layers\<rparr>"

section \<open>Rounding\<close>

text \<open>Facts about \<open>bitlen\<close>, \<open>round_shift\<close> and \<open>ieee_round\<close> used below.\<close>

lemma js_int_2: "js_int 2 = Finite False (2 ^ 52) (- 51)"
  by (simp add: js_int_def ieee_round_def compute_bitlen)

lemma bitlen_eqI:
  assumes "0 < b" "2 ^ nat (b - 1) \<le> m" "m < 2 ^ nat b"
  shows "bitlen m = b"
proof -
  have "bitlen m \<le> b" using assms by (simp add: bitlen_le_iff_power)
  moreover have "b \<le> bitlen m"
  proof -
    have "nat b - 1 = nat (b - 1)" using assms(1) by simp
    then show ?thesis using assms by (simp add: bitlen_ge_iff_power)
  qed
  ultimately show ?thesis by simp
qed

lemma bitlen_53: "2 ^ 52 \<le> m \<Longrightarrow> m < 2 ^ 53 \<Longrightarrow> bitlen m = 53"
  using bitlen_eqI [of 53 m] by simp

lemma bitlen_double: "0 < m \<Longrightarrow> bitlen (2 * m) = bitlen m + 1"
  using bitlen_pow2 [of m 1] by (simp add: mult.commute)

lemma bitlen_pos: "0 < m \<Longrightarrow> 0 < bitlen m"
  using bitlen_eq_zero_iff [of m] bitlen_nonneg [of m] by linarith

lemma round_shift_exact: "0 < k \<Longrightarrow> round_shift (m * 2 ^ nat k) k = m"
  by (simp add: round_shift_def Let_def)

lemma round_shift_bounds:
  assumes "0 < k" "0 \<le> m"
  shows "m div 2 ^ nat k \<le> round_shift m k" "round_shift m k \<le> m div 2 ^ nat k + 1"
  by (simp_all add: round_shift_def Let_def)

lemma round_shift_double:
  assumes "0 < k"
  shows "round_shift (2 * m) (k + 1) = round_shift m k"
proof -
  have k1: "nat (k + 1) = Suc (nat k)" using assms by simp
  have k2: "nat k = Suc (nat (k - 1))" using assms by simp
  have d: "(2 * m) div 2 ^ nat (k + 1) = m div 2 ^ nat k"
    unfolding k1 power_Suc by (rule div_mult_mult1) simp
  have r: "(2 * m) mod 2 ^ nat (k + 1) = 2 * (m mod 2 ^ nat k)"
    unfolding k1 power_Suc by (rule mult_mod_right [symmetric])
  have h: "(2::int) ^ nat (k + 1 - 1) = 2 * 2 ^ nat (k - 1)"
    using k2 by (metis add_diff_cancel_right' power_Suc)
  show ?thesis
    unfolding round_shift_def Let_def d r h by simp
qed

text \<open>Doubling the mantissa is the same as raising the exponent.\<close>

lemma ieee_round_double:
  assumes "0 < M"
  shows "ieee_round s (2 * M) E = ieee_round s M (E + 1)"
proof -
  define k where "k = max (bitlen M - 53) (- 1074 - (E + 1))"
  have k': "max (bitlen (2 * M) - 53) (- 1074 - E) = k + 1"
    using assms by (simp add: k_def bitlen_double)
  have nz: "2 * M \<noteq> 0" "M \<noteq> 0" using assms by simp_all
  consider "k < 0" | "k = 0" | "0 < k" by linarith
  then show ?thesis
  proof cases
    case 1
    then have "nat (- k) = Suc (nat (- (k + 1)))" by simp
    then have "2 * M * 2 ^ nat (- (k + 1)) = M * 2 ^ nat (- k)" by simp
    with 1 show ?thesis
      unfolding ieee_round_def [of s "2 * M"] ieee_round_def [of s M] Let_def k' k_def [symmetric]
      using nz by (simp add: add.commute add.left_commute)
  next
    case 2
    have "bitlen M \<le> 53" using 2 by (simp add: k_def)
    then have "M < 2 ^ 53" by (simp add: bitlen_le_iff_power)
    moreover have "round_shift (2 * M) 1 = M"
      using round_shift_exact [of 1 M] by (simp add: mult.commute)
    ultimately show ?thesis
      unfolding ieee_round_def [of s "2 * M"] ieee_round_def [of s M] Let_def k' k_def [symmetric]
      using nz 2 by simp
  next
    case 3
    then have rs: "round_shift (2 * M) (k + 1) = round_shift M k"
      by (rule round_shift_double)
    from 3 show ?thesis
      unfolding ieee_round_def [of s "2 * M"] ieee_round_def [of s M] Let_def k' k_def [symmetric] rs
      using nz by (simp add: add.commute add.left_commute)
  qed
qed

lemma ieee_round_shift:
  assumes "0 < M"
  shows "ieee_round s (M * 2 ^ j) E = ieee_round s M (E + int j)"
proof (induction j arbitrary: E)
  case 0
  then show ?case by simp
next
  case (Suc j)
  have "ieee_round s (M * 2 ^ Suc j) E = ieee_round s (2 * (M * 2 ^ j)) E"
    by (simp add: mult.commute mult.left_commute)
  also have "\<dots> = ieee_round s (M * 2 ^ j) (E + 1)"
    using assms by (intro ieee_round_double) simp
  also have "\<dots> = ieee_round s M (E + 1 + int j)" by (rule Suc.IH)
  finally show ?case by (simp add: add.commute add.left_commute)
qed

lemma js_mul_two:
  assumes "0 < m"
  shows "js_mul (js_int 2) (Finite s m e) = ieee_round s m (e + 1)"
proof -
  have "js_mul (js_int 2) (Finite s m e) = ieee_round s (m * 2 ^ 52) (- 51 + e)"
    by (simp add: js_int_2 mult.commute)
  also have "\<dots> = ieee_round s m (- 51 + e + int 52)"
    using assms by (rule ieee_round_shift)
  finally show ?thesis by (simp add: add.commute)
qed

lemma div_pow2_lower:
  fixes M :: int
  assumes "a * 2 ^ n \<le> M"
  shows "a \<le> M div 2 ^ n"
proof -
  have "(a * 2 ^ n) div 2 ^ n \<le> M div 2 ^ n"
    using assms by (rule zdiv_mono1) simp
  then show ?thesis by simp
qed

lemma div_pow2_upper:
  fixes M :: int
  assumes "M < b * 2 ^ n"
  shows "M div 2 ^ n < b"
proof -
  have "0 \<le> M mod 2 ^ n" by simp
  moreover have "M div 2 ^ n * 2 ^ n + M mod 2 ^ n = M" by (rule div_mult_mod_eq)
  ultimately have "M div 2 ^ n * 2 ^ n \<le> M" by linarith
  with assms have "M div 2 ^ n * 2 ^ n < b * 2 ^ n" by linarith
  then show ?thesis by (simp add: mult_less_cancel_right)
qed

text \<open>
  The shape of a rounded value whose exact value is at least \<open>2^-1022\<close>: a full
  53-bit mantissa, and an exponent that moves with the exponent of the exact value.
\<close>

lemma ieee_round_normal:
  assumes "0 < M"
  obtains m c where "2 ^ 52 \<le> m" "m < 2 ^ 53" "bitlen M - 53 \<le> c"
    "\<And>E. - 1074 - E \<le> bitlen M - 53 \<Longrightarrow>
       ieee_round s M E = (if 971 < E + c then Infinity s else Finite s m (E + c))"
proof -
  define k where "k = bitlen M - 53"
  have nz: "M \<noteq> 0" using assms by simp
  have kmax: "max (bitlen M - 53) (- 1074 - E) = k" if "- 1074 - E \<le> bitlen M - 53" for E
    using that by (simp add: k_def)
  have bl: "bitlen M = k + 53" by (simp add: k_def)
  have "bitlen M - 1 = k + 52" by (simp add: k_def)
  then have bnds: "2 ^ nat (k + 52) \<le> M" "M < 2 ^ nat (k + 53)"
    using bitlen_bounds [OF assms] unfolding bl by (metis, metis)
  have kge: "- 52 \<le> k" using bitlen_pos [OF assms] by (simp add: k_def)
  show ?thesis
  proof (cases "k \<le> 0")
    case True
    have e1: "nat (k + 52) + nat (- k) = 52" and e2: "nat (k + 53) + nat (- k) = 53"
      using True kge by simp_all
    have "2 ^ nat (k + 52) * 2 ^ nat (- k) \<le> M * (2::int) ^ nat (- k)"
      using bnds(1) by (simp add: mult_right_mono)
    then have lo: "2 ^ 52 \<le> M * 2 ^ nat (- k)"
      unfolding power_add [symmetric] e1 .
    have "M * 2 ^ nat (- k) < 2 ^ nat (k + 53) * (2::int) ^ nat (- k)"
      using bnds(2) by (simp add: mult_strict_right_mono)
    then have hi: "M * 2 ^ nat (- k) < 2 ^ 53"
      unfolding power_add [symmetric] e2 .
    show ?thesis
    proof (rule that [of "M * 2 ^ nat (- k)" k])
      show "2 ^ 52 \<le> M * 2 ^ nat (- k)" by (rule lo)
      show "M * 2 ^ nat (- k) < 2 ^ 53" by (rule hi)
      show "bitlen M - 53 \<le> k" by (simp add: k_def)
      show "ieee_round s M E = (if 971 < E + k then Infinity s else Finite s (M * 2 ^ nat (- k)) (E + k))"
        if "- 1074 - E \<le> bitlen M - 53" for E
        unfolding ieee_round_def Let_def kmax [OF that] using nz True by simp
    qed
  next
    case False
    then have kpos: "0 < k" by simp
    have e1: "nat (k + 52) = 52 + nat k" and e2: "nat (k + 53) = 53 + nat k"
      using kpos by simp_all
    have "2 ^ 52 * 2 ^ nat k \<le> M" using bnds(1) by (simp add: e1 power_add)
    then have dlo: "2 ^ 52 \<le> M div 2 ^ nat k" by (rule div_pow2_lower)
    have "M < 2 ^ 53 * 2 ^ nat k" using bnds(2) by (simp add: e2 power_add)
    then have dhi: "M div 2 ^ nat k < 2 ^ 53" by (rule div_pow2_upper)
    define q where "q = round_shift M k"
    have qlo: "2 ^ 52 \<le> q" and qhi: "q \<le> 2 ^ 53"
      using round_shift_bounds [OF kpos, of M] assms dlo dhi by (simp_all add: q_def)
    show ?thesis
    proof (cases "q = 2 ^ 53")
      case True
      show ?thesis
      proof (rule that [of "2 ^ 52" "k + 1"])
        show "(2::int) ^ 52 \<le> 2 ^ 52" by simp
        show "(2::int) ^ 52 < 2 ^ 53" by simp
        show "bitlen M - 53 \<le> k + 1" by (simp add: k_def)
        show "ieee_round s M E = (if 971 < E + (k + 1) then Infinity s else Finite s (2 ^ 52) (E + (k + 1)))"
          if "- 1074 - E \<le> bitlen M - 53" for E
          unfolding ieee_round_def Let_def kmax [OF that] q_def [symmetric]
          using nz kpos True by (simp add: add.assoc)
      qed
    next
      case False
      show ?thesis
      proof (rule that [of q k])
        show "2 ^ 52 \<le> q" by (rule qlo)
        show "q < 2 ^ 53" using qhi False by simp
        show "bitlen M - 53 \<le> k" by (simp add: k_def)
        show "ieee_round s M E = (if 971 < E + k then Infinity s else Finite s q (E + k))"
          if "- 1074 - E \<le> bitlen M - 53" for E
          unfolding ieee_round_def Let_def kmax [OF that] q_def [symmetric]
          using nz kpos False by simp
      qed
    qed
  qed
qed

lemma ieee_round_underflow:
  assumes "0 < M" "bitlen M - 53 < - 1074 - E"
  shows "\<exists>q. ieee_round s M E = Finite s q (- 1074)"
proof -
  define k where "k = - 1074 - E"
  have kmax: "max (bitlen M - 53) (- 1074 - E) = k" using assms(2) by (simp add: k_def)
  have nz: "M \<noteq> 0" using assms by simp
  have Ek: "E + k = - 1074" by (simp add: k_def)
  show ?thesis
  proof (cases "k \<le> 0")
    case True
    then show ?thesis
      unfolding ieee_round_def Let_def kmax Ek using nz by simp
  next
    case False
    then have kpos: "0 < k" by simp
    have "bitlen M \<le> 52 + k" using assms(2) by (simp add: k_def)
    then have "M < 2 ^ nat (52 + k)" by (simp add: bitlen_le_iff_power)
    moreover have "nat (52 + k) = 52 + nat k" using kpos by simp
    ultimately have "M < 2 ^ 52 * 2 ^ nat k" by (simp add: power_add)
    then have "M div 2 ^ nat k < 2 ^ 52" by (rule div_pow2_upper)
    then have "round_shift M k \<le> 2 ^ 52"
      using round_shift_bounds(2) [OF kpos, of M] assms(1) by simp
    then have "round_shift M k \<noteq> 2 ^ 53" by simp
    then show ?thesis
      unfolding ieee_round_def Let_def kmax Ek using nz kpos by simp
  qed
qed

lemma no_underflow_normal:
  assumes "0 < M" "no_underflow (ieee_round s M E)"
  shows "- 1074 - E \<le> bitlen M - 53"
proof (rule ccontr)
  assume "\<not> - 1074 - E \<le> bitlen M - 53"
  then have "bitlen M - 53 < - 1074 - E" by simp
  from ieee_round_underflow [OF assms(1) this, of s] obtain q
    where "ieee_round s M E = Finite s q (- 1074)" ..
  with assms(2) show False by simp
qed

lemma js_mul_two_normal:
  assumes "2 ^ 52 \<le> m" "m < 2 ^ 53" "- 1074 \<le> e"
  shows "js_mul (js_int 2) (Finite s m e) = (if 971 < e + 1 then Infinity s else Finite s m (e + 1))"
proof -
  have pos: "0 < m" using assms(1) by simp
  have "max (bitlen m - 53) (- 1074 - (e + 1)) = 0"
    using assms by (simp add: bitlen_53)
  then show ?thesis
    unfolding js_mul_two [OF pos] ieee_round_def Let_def using pos by simp
qed

lemma js_mul_two_Infinity: "js_mul (js_int 2) (Infinity s) = Infinity s"
  by (simp add: js_int_2)

lemma js_mul_two_subnormal:
  assumes "0 < m" "m < 2 ^ 52"
  shows "js_mul (js_int 2) (Finite s m (- 1074)) = Finite s (2 * m) (- 1074)"
proof -
  have "bitlen (2 * m) \<le> 53" using assms by (simp add: bitlen_le_iff_power)
  then have "max (bitlen (2 * m) - 53) (- 1074 - (- 1074)) = 0" by simp
  then have "ieee_round s (2 * m) (- 1074) = Finite s (2 * m) (- 1074)"
    unfolding ieee_round_def Let_def using assms by simp
  then show ?thesis
    using ieee_round_double [OF assms(1), of s "- 1074"] js_mul_two [OF assms(1), of s "- 1074"]
    by simp
qed

text \<open>Rounding commutes with doubling where the exact value does not underflow.\<close>

lemma ieee_round_Suc_exponent:
  assumes "0 < M" "- 1074 - E \<le> bitlen M - 53"
  shows "ieee_round s M (E + 1) = js_mul (js_int 2) (ieee_round s M E)"
proof -
  obtain m c where mc: "2 ^ 52 \<le> m" "m < 2 ^ 53" "bitlen M - 53 \<le> c"
    and shape: "\<And>E. - 1074 - E \<le> bitlen M - 53 \<Longrightarrow>
       ieee_round s M E = (if 971 < E + c then Infinity s else Finite s m (E + c))"
    using ieee_round_normal [OF assms(1), of s] by blast
  have a: "ieee_round s M E = (if 971 < E + c then Infinity s else Finite s m (E + c))"
    using assms(2) by (rule shape)
  have b: "ieee_round s M (E + 1) = (if 971 < E + 1 + c then Infinity s else Finite s m (E + 1 + c))"
    using assms(2) by (intro shape) simp
  have lo: "- 1074 \<le> E + c" using mc(3) assms(2) by simp
  show ?thesis
  proof (cases "971 < E + c")
    case True
    then show ?thesis by (simp add: a b js_mul_two_Infinity)
  next
    case False
    then show ?thesis
      by (simp add: a b js_mul_two_normal [OF mc(1) mc(2) lo] add.commute add.left_commute)
  qed
qed

text \<open>The first product: \<open>(2 * r) * mpu = 2 * (r * mpu)\<close>.\<close>

lemma js_mul_two_left:
  assumes "is_double (Finite s m e)" "0 < m" "0 < n"
    and "is_finite (js_mul (js_int 2) (Finite s m e))"
  shows "js_mul (js_mul (js_int 2) (Finite s m e)) (Finite t n f)
          = ieee_round (s \<noteq> t) (m * n) (e + f + 1)"
proof (cases "2 ^ 52 \<le> m")
  case True
  have "m < 2 ^ 53" "- 1074 \<le> e" using assms(1) by simp_all
  from js_mul_two_normal [OF True this, of s] assms(4)
  have "js_mul (js_int 2) (Finite s m e) = Finite s m (e + 1)"
    by (simp split: if_splits)
  then show ?thesis by (simp add: add.commute add.left_commute)
next
  case False
  then have sub: "m < 2 ^ 52" "e = - 1074" using assms(1) by simp_all
  have mn: "0 < m * n" using assms(2,3) by simp
  have "js_mul (js_mul (js_int 2) (Finite s m e)) (Finite t n f)
          = ieee_round (s \<noteq> t) (2 * (m * n)) (e + f)"
    by (simp add: sub js_mul_two_subnormal [OF assms(2) sub(1)] mult.assoc)
  also have "\<dots> = ieee_round (s \<noteq> t) (m * n) (e + f + 1)"
    using mn by (rule ieee_round_double)
  finally show ?thesis .
qed

lemma js_mul_linear_first:
  assumes "is_double (Finite s m e)" "is_double (Finite t n f)"
    and "is_finite (js_mul (js_int 2) (Finite s m e))"
    and "no_underflow (js_mul (Finite s m e) (Finite t n f))"
  shows "js_mul (js_mul (js_int 2) (Finite s m e)) (Finite t n f)
          = js_mul (js_int 2) (js_mul (Finite s m e) (Finite t n f))"
proof -
  have nonneg: "0 \<le> m" "0 \<le> n" using assms(1,2) by simp_all
  have "m * n \<noteq> 0"
  proof
    assume "m * n = 0"
    then have "ieee_round (s \<noteq> t) (m * n) (e + f) = Finite (s \<noteq> t) 0 (- 1074)"
      by (simp add: ieee_round_def)
    with assms(4) show False by simp
  qed
  with nonneg have pos: "0 < m" "0 < n" by (auto simp: less_le)
  then have mn: "0 < m * n" by simp
  have "- 1074 - (e + f) \<le> bitlen (m * n) - 53"
    using assms(4) by (intro no_underflow_normal [OF mn, of "s \<noteq> t"]) simp
  from ieee_round_Suc_exponent [OF mn this, of "s \<noteq> t"]
  show ?thesis
    by (simp add: js_mul_two_left [OF assms(1) pos assms(3)])
qed

text \<open>A number that did not underflow is an infinity or has a full mantissa.\<close>

lemma no_underflow_shape:
  assumes "0 < M" "no_underflow (ieee_round s M E)"
  shows "ieee_round s M E = Infinity s
         \<or> (\<exists>m e. ieee_round s M E = Finite s m e \<and> 2 ^ 52 \<le> m \<and> m < 2 ^ 53 \<and> - 1074 < e \<and> e \<le> 971)"
proof -
  have nr: "- 1074 - E \<le> bitlen M - 53" using assms by (rule no_underflow_normal)
  obtain m c where mc: "2 ^ 52 \<le> m" "m < 2 ^ 53"
    and shape: "\<And>E. - 1074 - E \<le> bitlen M - 53 \<Longrightarrow>
       ieee_round s M E = (if 971 < E + c then Infinity s else Finite s m (E + c))"
    using ieee_round_normal [OF assms(1), of s] by blast
  have a: "ieee_round s M E = (if 971 < E + c then Infinity s else Finite s m (E + c))"
    using nr by (rule shape)
  show ?thesis
  proof (cases "971 < E + c")
    case True
    then show ?thesis by (simp add: a)
  next
    case False
    with assms(2) mc show ?thesis by (simp add: a)
  qed
qed

text \<open>
  A later product, by a constant \<open>c \<ge> 2\<close> with a full mantissa: it cannot underflow,
  and it overflows whenever doubling its left operand does.
\<close>

lemma js_mul_linear_const:
  assumes x: "x = Infinity s \<or> (\<exists>m e. x = Finite s m e \<and> 2 ^ 52 \<le> m \<and> m < 2 ^ 53 \<and> - 1074 < e \<and> e \<le> 971)"
    and c: "2 ^ 52 \<le> n" "n < 2 ^ 53" "- 51 \<le> f"
  shows "js_mul (js_mul (js_int 2) x) (Finite False n f) = js_mul (js_int 2) (js_mul x (Finite False n f))
         \<and> (js_mul x (Finite False n f) = Infinity s
            \<or> (\<exists>m e. js_mul x (Finite False n f) = Finite s m e
                 \<and> 2 ^ 52 \<le> m \<and> m < 2 ^ 53 \<and> - 1074 < e \<and> e \<le> 971))"
proof -
  have n0: "n \<noteq> 0" using c(1) by simp
  from x show ?thesis
  proof
    assume "x = Infinity s"
    then show ?thesis using n0 by (simp add: js_mul_two_Infinity)
  next
    assume "\<exists>m e. x = Finite s m e \<and> 2 ^ 52 \<le> m \<and> m < 2 ^ 53 \<and> - 1074 < e \<and> e \<le> 971"
    then obtain m e where xe: "x = Finite s m e"
      and m: "2 ^ 52 \<le> m" "m < 2 ^ 53" and e: "- 1074 < e" "e \<le> 971" by blast
    have e': "- 1074 \<le> e" using e by simp
    have mpos: "0 < m" and npos: "0 < n" using m c by simp_all
    then have mn: "0 < m * n" by simp
    have "2 ^ 52 * 2 ^ 52 \<le> m * n"
      using m(1) c(1) by (intro mult_mono) simp_all
    then have "2 ^ (nat 105 - 1) \<le> m * n" by simp
    then have bl: "105 \<le> bitlen (m * n)" by (simp only: bitlen_ge_iff_power) simp
    have nr: "- 1074 - (e + f) \<le> bitlen (m * n) - 53" using bl e c(3) by simp
    obtain m' c' where mc: "2 ^ 52 \<le> m'" "m' < 2 ^ 53" "bitlen (m * n) - 53 \<le> c'"
      and shape: "\<And>E. - 1074 - E \<le> bitlen (m * n) - 53 \<Longrightarrow>
         ieee_round s (m * n) E = (if 971 < E + c' then Infinity s else Finite s m' (E + c'))"
      using ieee_round_normal [OF mn, of s] by blast
    have prod: "js_mul x (Finite False n f) = (if 971 < e + f + c' then Infinity s else Finite s m' (e + f + c'))"
      using shape [OF nr] by (simp add: xe)
    have big: "- 1074 < e + f + c'" using mc(3) bl e c(3) by simp
    have second: "js_mul x (Finite False n f) = Infinity s
            \<or> (\<exists>m e. js_mul x (Finite False n f) = Finite s m e
                 \<and> 2 ^ 52 \<le> m \<and> m < 2 ^ 53 \<and> - 1074 < e \<and> e \<le> 971)"
      using mc big by (simp add: prod)
    have first: "js_mul (js_mul (js_int 2) x) (Finite False n f) = js_mul (js_int 2) (js_mul x (Finite False n f))"
    proof (cases "971 < e + 1")
      case True
      then have "971 < e + f + c'" using mc(3) bl c(3) by simp
      then have "js_mul x (Finite False n f) = Infinity s" by (simp add: prod)
      moreover have "js_mul (js_int 2) x = Infinity s"
        using True by (simp add: xe js_mul_two_normal [OF m e'])
      ultimately show ?thesis using n0 by (simp add: js_mul_two_Infinity)
    next
      case False
      then have "js_mul (js_int 2) x = Finite s m (e + 1)"
        by (simp add: xe js_mul_two_normal [OF m e'])
      then have "js_mul (js_mul (js_int 2) x) (Finite False n f) = ieee_round s (m * n) (e + f + 1)"
        by (simp add: add.commute add.left_commute)
      also have "\<dots> = js_mul (js_int 2) (ieee_round s (m * n) (e + f))"
        using mn nr by (rule ieee_round_Suc_exponent)
      finally show ?thesis by (simp add: xe)
    qed
    from first second show ?thesis ..
  qed
qed

lemma inchesPerMeter_value: "js_lit 3937 100 = Finite False 5540834916549263 (- 47)"
  by (simp add: js_lit_def ieee_ratio_def ieee_round_def round_shift_def compute_bitlen Let_def)

lemma js_lit_254_10: "js_lit 254 10 = Finite False 7149464408450662 (- 48)"
  by (simp add: js_lit_def ieee_ratio_def ieee_round_def round_shift_def compute_bitlen Let_def)

lemma js_lit_28_100: "js_lit 28 100 = Finite False 5044031582654956 (- 54)"
  by (simp add: js_lit_def ieee_ratio_def ieee_round_def round_shift_def compute_bitlen Let_def)

lemma dpi_value: "js_div (js_lit 254 10) (js_lit 28 100) = Finite False 6383450364688090 (- 46)"
  unfolding js_lit_254_10 js_lit_28_100
  by (simp add: ieee_ratio_def ieee_round_def round_shift_def compute_bitlen Let_def)

text \<open>The scale is linear in the resolution where the first product does not underflow.\<close>

lemma scale_formula_linear:
  assumes r: "is_double r" "is_finite r" and mpu: "is_double mpu" "is_finite mpu"
    and two_r: "is_finite (js_mul (js_int 2) r)"
    and nu: "no_underflow (js_mul r mpu)"
  shows "scale_formula (js_mul (js_int 2) r) mpu = js_mul (js_int 2) (scale_formula r mpu)"
    and "scale_formula r mpu \<noteq> NaN"
    and "js_mul (js_int 2) (scale_formula r mpu) \<noteq> NaN"
proof -
  obtain s m e where re: "r = Finite s m e" using r(2) by (cases r) simp_all
  obtain t n f where me: "mpu = Finite t n f" using mpu(2) by (cases mpu) simp_all
  have r': "is_double (Finite s m e)" and mpu': "is_double (Finite t n f)"
    using r(1) mpu(1) by (simp_all add: re me)
  have nonneg: "0 \<le> m" "0 \<le> n" using r' mpu' by simp_all
  have "m * n \<noteq> 0"
  proof
    assume "m * n = 0"
    then have "js_mul r mpu = Finite (s \<noteq> t) 0 (- 1074)"
      by (simp add: re me ieee_round_def)
    with nu show False by simp
  qed
  with nonneg have mn: "0 < m * n" by (simp add: less_le mult_nonneg_nonneg)
  define x1 where "x1 = js_mul r mpu"
  have x1: "x1 = ieee_round (s \<noteq> t) (m * n) (e + f)" by (simp add: x1_def re me)
  have step1: "js_mul (js_mul (js_int 2) r) mpu = js_mul (js_int 2) x1"
    unfolding x1_def re me
    using r' mpu' two_r nu unfolding re me by (rule js_mul_linear_first)
  have shape1: "x1 = Infinity (s \<noteq> t)
      \<or> (\<exists>m e. x1 = Finite (s \<noteq> t) m e \<and> 2 ^ 52 \<le> m \<and> m < 2 ^ 53 \<and> - 1074 < e \<and> e \<le> 971)"
    unfolding x1 using mn nu unfolding x1_def [symmetric] x1 by (rule no_underflow_shape)
  define x2 where "x2 = js_mul x1 (Finite False 5540834916549263 (- 47))"
  from js_mul_linear_const [OF shape1, of 5540834916549263 "- 47"]
  have step2: "js_mul (js_mul (js_int 2) x1) (Finite False 5540834916549263 (- 47)) = js_mul (js_int 2) x2"
    and shape2: "x2 = Infinity (s \<noteq> t)
      \<or> (\<exists>m e. x2 = Finite (s \<noteq> t) m e \<and> 2 ^ 52 \<le> m \<and> m < 2 ^ 53 \<and> - 1074 < e \<and> e \<le> 971)"
    by (simp_all add: x2_def)
  define x3 where "x3 = js_mul x2 (Finite False 6383450364688090 (- 46))"
  from js_mul_linear_const [OF shape2, of 6383450364688090 "- 46"]
  have step3: "js_mul (js_mul (js_int 2) x2) (Finite False 6383450364688090 (- 46)) = js_mul (js_int 2) x3"
    and shape3: "x3 = Infinity (s \<noteq> t)
      \<or> (\<exists>m e. x3 = Finite (s \<noteq> t) m e \<and> 2 ^ 52 \<le> m \<and> m < 2 ^ 53 \<and> - 1074 < e \<and> e \<le> 971)"
    by (simp_all add: x3_def)
  have sf: "scale_formula r mpu = x3"
    by (simp add: scale_formula_def inchesPerMeter_value dpi_value x3_def x2_def x1_def)
  show "scale_formula (js_mul (js_int 2) r) mpu = js_mul (js_int 2) (scale_formula r mpu)"
    unfolding sf
    by (simp add: scale_formula_def inchesPerMeter_value dpi_value step1 step2 step3)
  show "scale_formula r mpu \<noteq> NaN" using shape3 unfolding sf by auto
  from shape3 show "js_mul (js_int 2) (scale_formula r mpu) \<noteq> NaN"
    unfolding sf
  proof
    assume "x3 = Infinity (s \<noteq> t)"
    then show "js_mul (js_int 2) x3 \<noteq> NaN" by (simp add: js_mul_two_Infinity)
  next
    assume "\<exists>m e. x3 = Finite (s \<noteq> t) m e \<and> 2 ^ 52 \<le> m \<and> m < 2 ^ 53 \<and> - 1074 < e \<and> e \<le> 971"
    then obtain m3 e3 where "x3 = Finite (s \<noteq> t) m3 e3" "2 ^ 52 \<le> m3" "m3 < 2 ^ 53" "- 1074 \<le> e3"
      by auto
    then show "js_mul (js_int 2) x3 \<noteq> NaN" by (simp add: js_mul_two_normal)
  qed
qed

section \<open>The scale calculator on numbers\<close>

lemma js_int_0: "js_int 0 = Finite False 0 (- 1074)"
  by (simp add: js_int_def ieee_round_def)

lemma js_int_1: "js_int 1 = Finite False (2 ^ 52) (- 52)"
  by (simp add: js_int_def ieee_round_def compute_bitlen)

lemma lookup_Str:
  "lookup_METERS_PER_UNIT env (Str u) = (case METERS_PER_UNIT env u of None \<Rightarrow> Undefined | Some x \<Rightarrow> Num x)"
  by (simp add: lookup_METERS_PER_UNIT_def)

lemma js_times_Num: "js_times env (Num a) (Num b) = Inr (Num (js_mul a b))"
  by (simp add: js_times_def)

lemma scale_of_number:
  assumes "lookup_METERS_PER_UNIT env units = Num mpu"
  shows "getScaleForResolution env (Num r) units = Inr (Num (scale_formula r mpu))"
proof (cases "truthy_prim (Num r)")
  case True
  then have "\<not> is_zero r" by simp
  then show ?thesis
    using True assms
    by (simp add: getScaleForResolution_def Let_def js_times_Num scale_formula_def)
next
  case False
  then show ?thesis
    using assms
    by (simp add: getScaleForResolution_def Let_def js_times_Num scale_formula_def)
qed

lemma scale_of_string:
  assumes "lookup_METERS_PER_UNIT env units = Num mpu" "s \<noteq> []"
  shows "getScaleForResolution env (Str s) units
           = Inr (Num (scale_formula (parseFloat_string env s) mpu))"
  using assms
  by (simp add: getScaleForResolution_def Let_def js_times_Num scale_formula_def)

lemma scale_formula_zero:
  assumes "is_finite mpu"
  shows "js_eq (scale_formula (js_int 0) mpu) (js_int 0)"
proof -
  obtain t n f where "mpu = Finite t n f" using assms by (cases mpu) simp_all
  then have "scale_formula (js_int 0) mpu = Finite t 0 (- 1074)"
    by (simp add: scale_formula_def js_int_0 inchesPerMeter_value dpi_value ieee_round_def)
  then show ?thesis by (simp add: js_eq_def js_int_0)
qed

lemma scale_returns_number:
  assumes "\<forall>d. resolution \<noteq> Symbol d" "resolution \<noteq> BigInt 0"
  shows "(\<exists>x. getScaleForResolution env resolution units = Inr (Num x))
       \<and> (lookup_METERS_PER_UNIT env units = Undefined \<longrightarrow>
            getScaleForResolution env resolution units = Inr (Num NaN))"
proof -
  have lk: "lookup_METERS_PER_UNIT env units = Undefined
            \<or> (\<exists>x. lookup_METERS_PER_UNIT env units = Num x)"
    by (simp add: lookup_METERS_PER_UNIT_def split: option.splits)
  have "\<exists>r a. (if truthy_prim resolution
               then map_sum id Num (parseFloat env resolution)
               else Inr resolution) = Inr r \<and> to_numeric env r = Inr (Num a)"
    using assms by (cases resolution) auto
  then obtain r a where r: "(if truthy_prim resolution
               then map_sum id Num (parseFloat env resolution)
               else Inr resolution) = Inr r" and a: "to_numeric env r = Inr (Num a)"
    by blast
  have undef: "js_times env r Undefined = Inr (Num NaN)"
    using a by (cases a) (simp_all add: js_times_def)
  have num: "js_times env r (Num x) = Inr (Num (js_mul a x))" for x
    using a by (simp add: js_times_def)
  from lk show ?thesis
  proof
    assume u: "lookup_METERS_PER_UNIT env units = Undefined"
    then show ?thesis
      by (simp add: getScaleForResolution_def Let_def r undef js_times_Num)
  next
    assume "\<exists>x. lookup_METERS_PER_UNIT env units = Num x"
    then obtain x where "lookup_METERS_PER_UNIT env units = Num x" ..
    then show ?thesis
      by (simp add: getScaleForResolution_def Let_def r num js_times_Num)
  qed
qed

section \<open>Promises, objects and the translator\<close>

lemma promise_all_Inl:
  "Inl err \<in> set ps \<Longrightarrow> \<exists>err'. promise_all ps = Inl err'"
  by (induction ps) (auto split: sum.splits)

lemma promise_all_Inr:
  "promise_all ps = Inr vs \<Longrightarrow> ps = map Inr vs"
  by (induction ps arbitrary: vs) (auto split: sum.splits)

lemma fromOlMap_Resolves:
  assumes "snd (fromOlMap env olMap) = Resolves spec"
  shows "\<exists>ds. map (\<lambda>l. snd (mapOlLayerToInkmap env l)) (getLayers olMap) = map Inr ds
           \<and> get_prop spec ''layers'' = Inr (Array (filter (\<lambda>d. d \<noteq> Prim Null) ds))"
proof -
  let ?ps = "map snd (map (mapOlLayerToInkmap env) (getLayers olMap))"
  from assms obtain responses where all: "promise_all ?ps = Inr responses"
    and spec: "get_prop spec ''layers'' = Inr (Array (filter (\<lambda>l. l \<noteq> Prim Null) responses))"
    by (auto simp: fromOlMap_def Let_def split: sum.splits if_splits)
  from promise_all_Inr [OF all] have "?ps = map Inr responses" .
  then have "map (\<lambda>l. snd (mapOlLayerToInkmap env l)) (getLayers olMap) = map Inr responses"
    by (simp add: comp_def)
  with spec show ?thesis by blast
qed

lemma after_readStyle_no_null:
  "after_readStyle config gsStyle = (evs, res) \<Longrightarrow> res \<noteq> Inr (Prim Null)"
  by (auto simp: after_readStyle_def split: sum.splits)

lemma null_iff_unrecognized:
  "snd (mapOlLayerToInkmap env olLayer) = Inr (Prim Null) \<longleftrightarrow> \<not> recognized (getSource olLayer)"
  using after_readStyle_no_null
  by (cases "getSource olLayer")
     (auto simp: mapOlLayerToInkmap_def Let_def split: sum.splits option.splits prod.splits)

lemma filter_all_but_one:
  assumes "k < length xs" "\<not> P (xs ! k)" "\<forall>j < length xs. j \<noteq> k \<longrightarrow> P (xs ! j)"
  shows "filter P xs = take k xs @ drop (Suc k) xs"
proof -
  have "\<forall>x \<in> set (take k xs). P x"
  proof
    fix x assume "x \<in> set (take k xs)"
    then obtain j where "j < length (take k xs)" "take k xs ! j = x"
      by (auto simp: in_set_conv_nth)
    then have "j < k" "j < length xs" "xs ! j = x" using assms(1) by simp_all
    with assms(3) show "P x" by auto
  qed
  moreover have "\<forall>x \<in> set (drop (Suc k) xs). P x"
  proof
    fix x assume "x \<in> set (drop (Suc k) xs)"
    then obtain j where j: "j < length (drop (Suc k) xs)" "drop (Suc k) xs ! j = x"
      by (auto simp: in_set_conv_nth)
    then have "Suc k + j < length xs" "xs ! (Suc k + j) = x" by simp_all
    with assms(3) show "P x" by auto
  qed
  moreover have "xs = take k xs @ xs ! k # drop (Suc k) xs"
    using assms(1) by (rule id_take_nth_drop)
  ultimately have "filter P xs = filter P (take k xs) @ filter P (xs ! k # drop (Suc k) xs)"
    "filter P (take k xs) = take k xs" "filter P (drop (Suc k) xs) = drop (Suc k) xs"
    by (metis filter_append, simp_all)
  then show ?thesis using assms(2) by simp
qed

lemma after_readStyle_result:
  "snd (after_readStyle config gsStyle) =
     (case get_prop gsStyle ''output'' of
        Inl err \<Rightarrow> Inl err
      | Inr output \<Rightarrow> Inr (Object (set_prop ''style'' output config)))"
proof (cases gsStyle)
  case (Prim p)
  then show ?thesis by (cases p) (simp_all add: after_readStyle_def)
qed (simp_all add: after_readStyle_def)

section \<open>The claims\<close>

text \<open>Definitions to unfold when the code is evaluated on a concrete input.\<close>

lemmas translate_defs =
  mapOlLayerToInkmap_def after_readStyle_def first_url_def url_or_empty_def params_LAYERS_def
  wmts_tileGrid_def index_array_def undefined_value_def Let_def

lemmas demo_defs =
  demo_env_def demo_map_def layer_osm_def layer_tilewms_def layer_wmts_def
  layer_unrecognized_def layer_vector_def uniform_style_def origin_def half_def

lemma demo_scale:
  "getScaleForResolution demo_env (Num r) (Str ''m'') = Inr (Num (scale_formula r (js_int 1)))"
  by (rule scale_of_number) (simp add: lookup_Str demo_env_def)

subsection \<open>C1: a rejecting layer rejects the whole specification\<close>

text \<open>
  Claim C1. If the translation of one layer of the map rejects, \<^verbatim>\<open>fromOlMap\<close> never
  resolves with a specification, whatever the other layers do; and where the view
  state is complete, so that the layers are reached, its promise rejects, with no
  reason given.
\<close>
theorem rejecting_layer_rejects_all:
  assumes "olLayer \<in> set (getLayers olMap)"
      and "snd (mapOlLayerToInkmap env olLayer) = Inl err"
  shows "(\<forall>spec. snd (fromOlMap env olMap) \<noteq> Resolves spec)
       \<and> (view_state_ok env olMap \<longrightarrow> snd (fromOlMap env olMap) = Rejects None)"
proof -
  let ?ps = "map snd (map (mapOlLayerToInkmap env) (getLayers olMap))"
  have "Inl err \<in> set ?ps"
    using assms by (force simp: image_iff)
  then obtain err' where rej: "promise_all ?ps = Inl err'"
    using promise_all_Inl by blast
  have "snd (fromOlMap env olMap) \<noteq> Resolves spec" for spec
    using rej by (auto simp: fromOlMap_def Let_def split: sum.splits if_splits)
  moreover have "snd (fromOlMap env olMap) = Rejects None" if "view_state_ok env olMap"
    using that rej
    by (auto simp: fromOlMap_def view_state_ok_def Let_def split: sum.splits)
  ultimately show ?thesis by blast
qed

text \<open>
  Two vector layers, the style parser resolving for the first and rejecting for the
  second: the promise of \<^verbatim>\<open>fromOlMap\<close> rejects.
\<close>

theorem rejecting_layer_rejects_all_witness:
  "layer_vector (Array [])
     \<in> set (getLayers (demo_map (Num (js_int 1)) (Str ''EPSG:4326'')
                          [layer_vector uniform_style, layer_vector (Array [])]))
   \<and> \<not> isl (snd (mapOlLayerToInkmap demo_env (layer_vector uniform_style)))
   \<and> snd (mapOlLayerToInkmap demo_env (layer_vector (Array []))) = Inl (Error ''no style to read'')
   \<and> view_state_ok demo_env (demo_map (Num (js_int 1)) (Str ''EPSG:4326'')
                          [layer_vector uniform_style, layer_vector (Array [])])
   \<and> snd (fromOlMap demo_env (demo_map (Num (js_int 1)) (Str ''EPSG:4326'')
                          [layer_vector uniform_style, layer_vector (Array [])])) = Rejects None"
proof -
  let ?m = "demo_map (Num (js_int 1)) (Str ''EPSG:4326'')
              [layer_vector uniform_style, layer_vector (Array [])]"
  have a: "layer_vector (Array []) \<in> set (getLayers ?m)" by (simp add: demo_map_def)
  have b: "snd (mapOlLayerToInkmap demo_env (layer_vector (Array []))) = Inl (Error ''no style to read'')"
    by (simp add: translate_defs demo_defs)
  have c: "\<not> isl (snd (mapOlLayerToInkmap demo_env (layer_vector uniform_style)))"
    by (simp add: translate_defs demo_defs)
  have d: "view_state_ok demo_env ?m"
    by (simp add: view_state_ok_def demo_map_def demo_scale origin_def js_int_1)
       (simp add: demo_env_def)
  from rejecting_layer_rejects_all [OF a b] a b c d show ?thesis by blast
qed

subsection \<open>C2: unrecognized layers are dropped, the order is kept\<close>

text \<open>
  Claim C2. A layer is translated to \<^verbatim>\<open>null\<close> exactly when its source is none of
  the five recognized classes. When \<^verbatim>\<open>fromOlMap\<close> resolves, the \<^verbatim>\<open>layers\<close> of the
  specification are the descriptors of the layers that are not \<^verbatim>\<open>null\<close>, in the order
  of the input; with layer \<open>k\<close> the only unrecognized one among \<open>N\<close>, these are the
  other \<open>N - 1\<close> descriptors in their order.
\<close>
theorem layers_in_order_without_unrecognized:
  assumes "snd (fromOlMap env olMap) = Resolves spec"
  shows "(\<forall>l. snd (mapOlLayerToInkmap env l) = Inr (Prim Null) \<longleftrightarrow> \<not> recognized (getSource l))
       \<and> (\<exists>ds. map (\<lambda>l. snd (mapOlLayerToInkmap env l)) (getLayers olMap) = map Inr ds
             \<and> get_prop spec ''layers'' = Inr (Array (filter (\<lambda>d. d \<noteq> Prim Null) ds))
             \<and> (\<forall>k < length (getLayers olMap).
                   \<not> recognized (getSource (getLayers olMap ! k))
                   \<and> (\<forall>j < length (getLayers olMap). j \<noteq> k \<longrightarrow> recognized (getSource (getLayers olMap ! j)))
                   \<longrightarrow> get_prop spec ''layers'' = Inr (Array (take k ds @ drop (Suc k) ds))
                       \<and> length (take k ds @ drop (Suc k) ds) = length (getLayers olMap) - 1))"
proof -
  let ?ls = "getLayers olMap"
  obtain ds where ds: "map (\<lambda>l. snd (mapOlLayerToInkmap env l)) ?ls = map Inr ds"
    and spec: "get_prop spec ''layers'' = Inr (Array (filter (\<lambda>d. d \<noteq> Prim Null) ds))"
    using fromOlMap_Resolves [OF assms] by blast
  have len: "length ds = length ?ls"
    using ds by (metis length_map)
  have nth: "snd (mapOlLayerToInkmap env (?ls ! j)) = Inr (ds ! j)" if "j < length ?ls" for j
  proof -
    have "map (\<lambda>l. snd (mapOlLayerToInkmap env l)) ?ls ! j = map Inr ds ! j" by (simp only: ds)
    then show ?thesis using that len by simp
  qed
  have rec: "ds ! j \<noteq> Prim Null \<longleftrightarrow> recognized (getSource (?ls ! j))" if "j < length ?ls" for j
    using null_iff_unrecognized [of env "?ls ! j"] nth [OF that] by simp
  have one: "filter (\<lambda>d. d \<noteq> Prim Null) ds = take k ds @ drop (Suc k) ds
             \<and> length (take k ds @ drop (Suc k) ds) = length ?ls - 1"
    if "k < length ?ls" "\<not> recognized (getSource (?ls ! k))"
       "\<forall>j < length ?ls. j \<noteq> k \<longrightarrow> recognized (getSource (?ls ! j))" for k
  proof
    show "filter (\<lambda>d. d \<noteq> Prim Null) ds = take k ds @ drop (Suc k) ds"
      using that rec len by (intro filter_all_but_one) auto
    show "length (take k ds @ drop (Suc k) ds) = length ?ls - 1"
      using that(1) len by simp
  qed
  have "get_prop spec ''layers'' = Inr (Array (take k ds @ drop (Suc k) ds))
             \<and> length (take k ds @ drop (Suc k) ds) = length ?ls - 1"
    if "k < length ?ls" "\<not> recognized (getSource (?ls ! k))"
       "\<forall>j < length ?ls. j \<noteq> k \<longrightarrow> recognized (getSource (?ls ! j))" for k
    using one [OF that] spec by simp
  then have "\<forall>k < length ?ls.
       \<not> recognized (getSource (?ls ! k))
       \<and> (\<forall>j < length ?ls. j \<noteq> k \<longrightarrow> recognized (getSource (?ls ! j)))
       \<longrightarrow> get_prop spec ''layers'' = Inr (Array (take k ds @ drop (Suc k) ds))
           \<and> length (take k ds @ drop (Suc k) ds) = length ?ls - 1"
    by blast
  with ds spec have "\<exists>ds. map (\<lambda>l. snd (mapOlLayerToInkmap env l)) ?ls = map Inr ds
             \<and> get_prop spec ''layers'' = Inr (Array (filter (\<lambda>d. d \<noteq> Prim Null) ds))
             \<and> (\<forall>k < length ?ls.
                   \<not> recognized (getSource (?ls ! k))
                   \<and> (\<forall>j < length ?ls. j \<noteq> k \<longrightarrow> recognized (getSource (?ls ! j)))
                   \<longrightarrow> get_prop spec ''layers'' = Inr (Array (take k ds @ drop (Suc k) ds))
                       \<and> length (take k ds @ drop (Suc k) ds) = length ?ls - 1)"
    by blast
  moreover have "\<forall>l. snd (mapOlLayerToInkmap env l) = Inr (Prim Null) \<longleftrightarrow> \<not> recognized (getSource l)"
    using null_iff_unrecognized by blast
  ultimately show ?thesis by blast
qed

text \<open>
  Three layers, the second of an unrecognized class: the specification holds the
  descriptors of the first and the third, in this order.
\<close>

theorem layers_in_order_without_unrecognized_witness:
  "\<exists>spec. snd (fromOlMap demo_env (demo_map (Num (js_int 1)) (Str ''EPSG:4326'')
                      [layer_osm, layer_unrecognized, layer_tilewms])) = Resolves spec
      \<and> snd (mapOlLayerToInkmap demo_env layer_unrecognized) = Inr (Prim Null)
      \<and> get_prop spec ''layers'' =
          Inr (Array
            [Object [(''type'', str ''XYZ''),
                     (''url'', str ''https://{a-c}.tile.openstreetmap.org/{z}/{x}/{y}.png''),
                     (''opacity'', Prim (Num (js_int 1))),
                     (''attribution'', str osm_attribution),
                     (''tiled'', Prim (Bool True))],
             Object [(''type'', str ''WMS''),
                     (''url'', str ''http://x/wms''),
                     (''opacity'', half),
                     (''attribution'', str []),
                     (''layer'', str ''foo''),
                     (''tiled'', Prim (Bool True))]])"
proof -
  let ?m = "demo_map (Num (js_int 1)) (Str ''EPSG:4326'') [layer_osm, layer_unrecognized, layer_tilewms]"
  let ?osm = "Object [(''type'', str ''XYZ''),
                     (''url'', str ''https://{a-c}.tile.openstreetmap.org/{z}/{x}/{y}.png''),
                     (''opacity'', Prim (Num (js_int 1))),
                     (''attribution'', str osm_attribution),
                     (''tiled'', Prim (Bool True))]"
  let ?wms = "Object [(''type'', str ''WMS''),
                     (''url'', str ''http://x/wms''),
                     (''opacity'', half),
                     (''attribution'', str []),
                     (''layer'', str ''foo''),
                     (''tiled'', Prim (Bool True))]"
  have t: "toLonLat demo_env origin (Str ''EPSG:4326'') = Inr origin" by (simp add: demo_env_def)
  have tr: "map (\<lambda>l. snd (mapOlLayerToInkmap demo_env l)) (getLayers ?m)
              = map Inr [?osm, Prim Null, ?wms]"
    by (simp add: translate_defs demo_map_def layer_osm_def layer_unrecognized_def layer_tilewms_def)
  obtain spec where spec: "snd (fromOlMap demo_env ?m) = Resolves spec"
    using t by (simp add: fromOlMap_def demo_map_def demo_scale translate_defs
        layer_osm_def layer_unrecognized_def layer_tilewms_def origin_def)
  from layers_in_order_without_unrecognized [OF spec]
  obtain ds where null: "snd (mapOlLayerToInkmap demo_env layer_unrecognized) = Inr (Prim Null)
                          \<longleftrightarrow> \<not> recognized (getSource layer_unrecognized)"
    and ds: "map (\<lambda>l. snd (mapOlLayerToInkmap demo_env l)) (getLayers ?m) = map Inr ds"
    and one: "\<forall>k < length (getLayers ?m).
                   \<not> recognized (getSource (getLayers ?m ! k))
                   \<and> (\<forall>j < length (getLayers ?m). j \<noteq> k \<longrightarrow> recognized (getSource (getLayers ?m ! j)))
                   \<longrightarrow> get_prop spec ''layers'' = Inr (Array (take k ds @ drop (Suc k) ds))
                       \<and> length (take k ds @ drop (Suc k) ds) = length (getLayers ?m) - 1"
    by blast
  have "map Inr ds = (map Inr [?osm, Prim Null, ?wms] :: (js_error + jsval) list)"
    using ds tr by simp
  then have dsv: "ds = [?osm, Prim Null, ?wms]"
    by auto
  have only: "\<forall>j < length (getLayers ?m). j \<noteq> 1 \<longrightarrow> recognized (getSource (getLayers ?m ! j))"
    by (simp add: demo_map_def layer_osm_def layer_tilewms_def less_Suc_eq numeral_3_eq_3)
  have "1 < length (getLayers ?m)" "\<not> recognized (getSource (getLayers ?m ! 1))"
    by (simp_all add: demo_map_def layer_unrecognized_def)
  with one only have "get_prop spec ''layers'' = Inr (Array (take 1 ds @ drop (Suc 1) ds))"
    by blast
  then have "get_prop spec ''layers'' = Inr (Array [?osm, ?wms])" by (simp add: dsv)
  moreover have "snd (mapOlLayerToInkmap demo_env layer_unrecognized) = Inr (Prim Null)"
    using null by (simp add: layer_unrecognized_def)
  ultimately show ?thesis using spec by blast
qed

subsection \<open>C3: the check of the view state\<close>

text \<open>
  Claim C3, as amended. For a resolution that is a number, a string, \<^verbatim>\<open>null\<close> or
  \<^verbatim>\<open>undefined\<close> (any value but a symbol and the BigInt zero, on which the scale
  computation throws first): when the units or the center are falsy, or the
  resolution is \<^verbatim>\<open>null\<close> or \<^verbatim>\<open>undefined\<close>, \<^verbatim>\<open>fromOlMap\<close> throws the error of an
  incomplete view state, having written its first console line and translated no
  layer. These three are all that is checked: with units and center truthy and a
  resolution present, the number zero included, nothing is thrown once \<^verbatim>\<open>toLonLat\<close>
  returns, whatever the code of the projection is.
\<close>
theorem incomplete_view_state_before_layers:
  assumes "\<forall>d. getResolution olMap \<noteq> Symbol d" "getResolution olMap \<noteq> BigInt 0"
  shows "(\<not> truthy_prim (getUnits olMap) \<or> \<not> truthy (getCenter olMap)
            \<or> getResolution olMap = Null \<or> getResolution olMap = Undefined
          \<longrightarrow> fromOlMap env olMap = ([Console_log_olMap], Throws incomplete_view_state))
       \<and> (truthy_prim (getUnits olMap) \<and> truthy (getCenter olMap)
            \<and> getResolution olMap \<noteq> Null \<and> getResolution olMap \<noteq> Undefined
            \<and> \<not> isl (toLonLat env (getCenter olMap) (getCode olMap))
          \<longrightarrow> (\<forall>err. snd (fromOlMap env olMap) \<noteq> Throws err))"
proof -
  obtain x where x: "getScaleForResolution env (getResolution olMap) (getUnits olMap) = Inr (Num x)"
    using scale_returns_number [OF assms] by blast
  show ?thesis
    by (auto simp: fromOlMap_def Let_def x split: sum.splits)
qed

text \<open>
  An undefined resolution throws; the resolution zero with an undefined projection
  code does not.
\<close>

theorem incomplete_view_state_before_layers_witness:
  "fromOlMap demo_env (demo_map Undefined (Str ''EPSG:4326'') [layer_osm])
     = ([Console_log_olMap], Throws incomplete_view_state)
   \<and> truthy (getCenter (demo_map (Num (js_int 0)) Undefined [layer_osm]))
   \<and> (\<forall>err. snd (fromOlMap demo_env (demo_map (Num (js_int 0)) Undefined [layer_osm])) \<noteq> Throws err)"
proof -
  let ?m1 = "demo_map Undefined (Str ''EPSG:4326'') [layer_osm]"
  let ?m2 = "demo_map (Num (js_int 0)) Undefined [layer_osm]"
  have "\<forall>d. getResolution ?m1 \<noteq> Symbol d" "getResolution ?m1 \<noteq> BigInt 0"
    by (simp_all add: demo_map_def)
  from incomplete_view_state_before_layers [OF this, of demo_env]
  have 1: "fromOlMap demo_env ?m1 = ([Console_log_olMap], Throws incomplete_view_state)"
    by (simp add: demo_map_def)
  have "\<forall>d. getResolution ?m2 \<noteq> Symbol d" "getResolution ?m2 \<noteq> BigInt 0"
    by (simp_all add: demo_map_def)
  from incomplete_view_state_before_layers [OF this, of demo_env]
  have 2: "\<forall>err. snd (fromOlMap demo_env ?m2) \<noteq> Throws err"
    by (simp add: demo_map_def origin_def) (simp add: demo_env_def)
  have 3: "truthy (getCenter ?m2)" by (simp add: demo_map_def origin_def)
  from 1 2 3 show ?thesis by blast
qed

text \<open>
  Claim C3 as stated has the projection validated as present. The code does not
  check it: a map whose projection code is \<^verbatim>\<open>undefined\<close>, with units, resolution and
  center present, resolves with a specification whose \<^verbatim>\<open>projection\<close> is \<^verbatim>\<open>undefined\<close>.
\<close>

theorem projection_not_validated:
  "getCode (demo_map (Num (js_int 1)) Undefined [layer_osm]) = Undefined
   \<and> fromOlMap demo_env (demo_map (Num (js_int 1)) Undefined [layer_osm])
     = ([Console_log_olMap, Translate []],
        Resolves (Object
          [(''layers'', Array
             [Object [(''type'', str ''XYZ''),
                      (''url'', str ''https://{a-c}.tile.openstreetmap.org/{z}/{x}/{y}.png''),
                      (''opacity'', Prim (Num (js_int 1))),
                      (''attribution'', str osm_attribution),
                      (''tiled'', Prim (Bool True))]]),
           (''size'', Array [Prim (Num (js_int 400)), Prim (Num (js_int 240)), str ''mm'']),
           (''center'', origin),
           (''dpi'', Prim (Num (js_int 120))),
           (''scale'', Prim (Num (Finite False 7853638776805315 (- 41)))),
           (''scaleBar'', Object [(''position'', str ''bottom-left''), (''units'', str ''metric'')]),
           (''projection'', Prim Undefined),
           (''northArrow'', str ''top-right''),
           (''attributions'', str ''bottom-right'')]))"
proof -
  have "toLonLat demo_env origin Undefined = Inr origin" by (simp add: demo_env_def)
  moreover have "scale_formula (js_int 1) (js_int 1) = Finite False 7853638776805315 (- 41)"
    by (simp add: scale_formula_def inchesPerMeter_value dpi_value js_int_1
        ieee_round_def round_shift_def compute_bitlen Let_def)
  ultimately show ?thesis
    by (simp add: fromOlMap_def demo_map_def demo_scale translate_defs layer_osm_def)
       (simp add: origin_def)
qed

subsection \<open>C4: the matrix identifiers of a WMTS layer\<close>

text \<open>
  Claim C4. For a WMTS layer whose source has a projection and a tile grid with
  \<open>N\<close> resolutions, the descriptor's \<^verbatim>\<open>tileGrid\<close> holds those resolutions and has
  as \<^verbatim>\<open>matrixIds\<close> the numbers \<open>0, 1, \<dots>, N - 1\<close>, whatever identifiers the tile grid of
  the source has.
\<close>
theorem wmts_matrixIds:
  assumes "getSource olLayer = WMTS src"
      and "wmts_getProjection src = Some code"
      and "wmts_getTileGrid src = Some g"
  shows "\<exists>d tg ids. mapOlLayerToInkmap env olLayer = ([], Inr d)
           \<and> get_prop d ''tileGrid'' = Inr tg
           \<and> get_prop tg ''resolutions'' = Inr (Array (getResolutions g))
           \<and> get_prop tg ''matrixIds'' = Inr (Array ids)
           \<and> length ids = length (getResolutions g)
           \<and> (\<forall>k < length (getResolutions g). ids ! k = Prim (Num (js_int (int k))))"
  using assms
  by (simp add: mapOlLayerToInkmap_def wmts_tileGrid_def index_array_def)

text \<open>
  Three resolutions, and the identifiers \<^verbatim>\<open>EPSG:3857:0\<close> to \<^verbatim>\<open>EPSG:3857:2\<close> in the
  source: the \<^verbatim>\<open>matrixIds\<close> are 0, 1 and 2.
\<close>

theorem wmts_matrixIds_witness:
  "\<exists>d tg. mapOlLayerToInkmap demo_env layer_wmts = ([], Inr d)
      \<and> get_prop d ''tileGrid'' = Inr tg
      \<and> get_prop tg ''matrixIds'' =
          Inr (Array [Prim (Num (js_int 0)), Prim (Num (js_int 1)), Prim (Num (js_int 2))])"
proof -
  let ?src = "\<lparr>wmts_getRequestEncoding = str ''KVP'',
         wmts_getUrls = Some [''https://mrdata.usgs.gov/mapcache/wmts''],
         wmts_getLayer = str ''sgmc2'',
         wmts_getProjection = Some (str ''EPSG:3857''),
         wmts_getMatrixSet = str ''GoogleMapsCompatible'',
         wmts_getTileGrid = Some
           \<lparr>getResolutions = [Prim (Num (js_int 4)), Prim (Num (js_int 2)), Prim (Num (js_int 1))],
            getExtent = undefined_value,
            getMatrixIds = [str ''EPSG:3857:0'', str ''EPSG:3857:1'', str ''EPSG:3857:2'']\<rparr>,
         wmts_getFormat = str ''image/png''\<rparr>"
  let ?g = "\<lparr>getResolutions = [Prim (Num (js_int 4)), Prim (Num (js_int 2)), Prim (Num (js_int 1))],
            getExtent = undefined_value,
            getMatrixIds = [str ''EPSG:3857:0'', str ''EPSG:3857:1'', str ''EPSG:3857:2'']\<rparr>"
  have "getSource layer_wmts = WMTS ?src" by (simp add: layer_wmts_def)
  moreover have "wmts_getProjection ?src = Some (str ''EPSG:3857'')" by simp
  moreover have "wmts_getTileGrid ?src = Some ?g" by simp
  ultimately obtain d tg ids where
    *: "mapOlLayerToInkmap demo_env layer_wmts = ([], Inr d)" "get_prop d ''tileGrid'' = Inr tg"
       "get_prop tg ''matrixIds'' = Inr (Array ids)" "length ids = length (getResolutions ?g)"
       "\<forall>k < length (getResolutions ?g). ids ! k = Prim (Num (js_int (int k)))"
    using wmts_matrixIds [of layer_wmts ?src "str ''EPSG:3857''" ?g demo_env] by blast
  from *(4) have len: "length ids = 3" by simp
  from *(5) have "ids ! 0 = Prim (Num (js_int 0))" "ids ! 1 = Prim (Num (js_int 1))"
     "ids ! 2 = Prim (Num (js_int 2))" by simp_all
  with len have "ids = [Prim (Num (js_int 0)), Prim (Num (js_int 1)), Prim (Num (js_int 2))]"
    by (cases ids; cases "tl ids"; cases "tl (tl ids)"; cases "tl (tl (tl ids))") auto
  with * show ?thesis by blast
qed

subsection \<open>C5: the style of a vector layer\<close>

text \<open>
  Claim C5, as amended. The translator does not tell a style function from a style
  object. A function is truthy, and for a vector layer of class \<^verbatim>\<open>VectorLayer\<close> every
  truthy style is handed to the style parser, first of all: the translation rejects
  if the parser rejects or resolves with \<^verbatim>\<open>null\<close> or \<^verbatim>\<open>undefined\<close>, and otherwise the
  descriptor is a GeoJSON one whose \<^verbatim>\<open>style\<close> is the \<^verbatim>\<open>output\<close> the parser resolved
  with. Only a falsy style leaves \<^verbatim>\<open>style\<close> unset without a call of the parser.
\<close>
theorem style_function_is_translated:
  assumes "getSource olLayer = VectorSource features"
      and "writeFeaturesObject env features = Inr geojson"
      and "instanceof_VectorLayer olLayer"
  shows "truthy (Function f)
       \<and> (truthy (getStyle olLayer) \<longrightarrow>
            (\<exists>evs. fst (mapOlLayerToInkmap env olLayer) = Call_readStyle (getStyle olLayer) # evs)
            \<and> snd (mapOlLayerToInkmap env olLayer) =
                (case readStyle env (getStyle olLayer) of
                   Inl err \<Rightarrow> Inl err
                 | Inr gsStyle \<Rightarrow>
                     (case get_prop gsStyle ''output'' of
                        Inl err \<Rightarrow> Inl err
                      | Inr output \<Rightarrow>
                          Inr (Object [(''type'', str ''GeoJSON''), (''geojson'', geojson),
                                       (''style'', output), (''attribution'', str [])]))))
       \<and> (\<not> truthy (getStyle olLayer) \<longrightarrow>
            mapOlLayerToInkmap env olLayer =
              ([], Inr (Object [(''type'', str ''GeoJSON''), (''geojson'', geojson),
                                (''style'', Prim Undefined), (''attribution'', str [])])))"
proof -
  let ?config = "[(''type'', str ''GeoJSON''), (''geojson'', geojson),
                  (''style'', undefined_value), (''attribution'', str [])]"
  have m: "mapOlLayerToInkmap env olLayer =
      (if truthy (getStyle olLayer)
       then (case readStyle env (getStyle olLayer) of
               Inl err \<Rightarrow> ([Call_readStyle (getStyle olLayer)], Inl err)
             | Inr gsStyle \<Rightarrow>
                 (Call_readStyle (getStyle olLayer) # fst (after_readStyle ?config gsStyle),
                  snd (after_readStyle ?config gsStyle)))
       else ([], Inr (Object ?config)))"
    using assms by (simp add: mapOlLayerToInkmap_def Let_def case_prod_beta split: sum.splits)
  have sp: "set_prop ''style'' v ?config =
      [(''type'', str ''GeoJSON''), (''geojson'', geojson),
       (''style'', v), (''attribution'', str [])]" for v
    by simp
  have "truthy (Function f)" by simp
  moreover have "\<exists>evs. fst (mapOlLayerToInkmap env olLayer) = Call_readStyle (getStyle olLayer) # evs"
    if "truthy (getStyle olLayer)"
    using that by (simp add: m split: sum.splits)
  moreover have "snd (mapOlLayerToInkmap env olLayer) =
                (case readStyle env (getStyle olLayer) of
                   Inl err \<Rightarrow> Inl err
                 | Inr gsStyle \<Rightarrow>
                     (case get_prop gsStyle ''output'' of
                        Inl err \<Rightarrow> Inl err
                      | Inr output \<Rightarrow>
                          Inr (Object [(''type'', str ''GeoJSON''), (''geojson'', geojson),
                                       (''style'', output), (''attribution'', str [])])))"
    if "truthy (getStyle olLayer)"
    using that unfolding m after_readStyle_result sp by (simp split: sum.splits)
  moreover have "mapOlLayerToInkmap env olLayer =
              ([], Inr (Object [(''type'', str ''GeoJSON''), (''geojson'', geojson),
                                (''style'', Prim Undefined), (''attribution'', str [])]))"
    if "\<not> truthy (getStyle olLayer)"
    using that by (simp add: m undefined_value_def)
  ultimately show ?thesis by blast
qed

text \<open>
  A style function that the parser knows, and the style \<^verbatim>\<open>null\<close>.
\<close>

theorem style_function_is_translated_witness:
  "(\<exists>evs. fst (mapOlLayerToInkmap demo_env (layer_vector (Function ''geoStylerStyleFunction'')))
           = Call_readStyle (Function ''geoStylerStyleFunction'') # evs)
   \<and> snd (mapOlLayerToInkmap demo_env (layer_vector (Function ''geoStylerStyleFunction'')))
     = Inr (Object [(''type'', str ''GeoJSON''),
                    (''geojson'', Object [(''type'', str ''FeatureCollection''), (''features'', Array [])]),
                    (''style'', Object [(''name'', str ''GeoStyler Style''), (''rules'', Array [])]),
                    (''attribution'', str [])])
   \<and> mapOlLayerToInkmap demo_env (layer_vector (Prim Null))
     = ([], Inr (Object [(''type'', str ''GeoJSON''),
                    (''geojson'', Object [(''type'', str ''FeatureCollection''), (''features'', Array [])]),
                    (''style'', Prim Undefined),
                    (''attribution'', str [])]))"
proof -
  let ?g = "Object [(''type'', str ''FeatureCollection''), (''features'', Array [])]"
  have w: "writeFeaturesObject demo_env [] = Inr ?g" by (simp add: demo_env_def)
  let ?l1 = "layer_vector (Function ''geoStylerStyleFunction'')"
  have "getSource ?l1 = VectorSource []" "instanceof_VectorLayer ?l1"
    by (simp_all add: layer_vector_def)
  from style_function_is_translated [OF this(1) w this(2), of "''geoStylerStyleFunction''"]
  have 1: "\<exists>evs. fst (mapOlLayerToInkmap demo_env ?l1)
                   = Call_readStyle (Function ''geoStylerStyleFunction'') # evs"
    "snd (mapOlLayerToInkmap demo_env ?l1)
     = Inr (Object [(''type'', str ''GeoJSON''), (''geojson'', ?g),
                    (''style'', Object [(''name'', str ''GeoStyler Style''), (''rules'', Array [])]),
                    (''attribution'', str [])])"
    by (simp_all add: layer_vector_def demo_env_def)
  let ?l2 = "layer_vector (Prim Null)"
  have "getSource ?l2 = VectorSource []" "instanceof_VectorLayer ?l2"
    by (simp_all add: layer_vector_def)
  from style_function_is_translated [OF this(1) w this(2), of "''geoStylerStyleFunction''"]
  have 2: "mapOlLayerToInkmap demo_env ?l2
     = ([], Inr (Object [(''type'', str ''GeoJSON''), (''geojson'', ?g),
                    (''style'', Prim Undefined), (''attribution'', str [])]))"
    by (simp add: layer_vector_def)
  from 1 2 show ?thesis by blast
qed

text \<open>
  Claim C5 as stated has a style function ignored, the parser never called and the
  style unset. On a layer whose style is a function the parser is called with that
  function: where it resolves with an output, that output is the descriptor's
  style; where it reports errors, they are written to the console.
\<close>

theorem style_function_reaches_parser:
  "instanceof_VectorLayer (layer_vector (Function ''geoStylerStyleFunction''))
   \<and> getStyle (layer_vector (Function ''geoStylerStyleFunction'')) = Function ''geoStylerStyleFunction''
   \<and> mapOlLayerToInkmap demo_env (layer_vector (Function ''geoStylerStyleFunction''))
     = ([Call_readStyle (Function ''geoStylerStyleFunction''),
         Console_log ''gsStyle''
           (Object [(''output'', Object [(''name'', str ''GeoStyler Style''), (''rules'', Array [])])])],
        Inr (Object [(''type'', str ''GeoJSON''),
                    (''geojson'', Object [(''type'', str ''FeatureCollection''), (''features'', Array [])]),
                    (''style'', Object [(''name'', str ''GeoStyler Style''), (''rules'', Array [])]),
                    (''attribution'', str [])]))
   \<and> fst (mapOlLayerToInkmap demo_env (layer_vector (Function ''styleFunction'')))
     = [Call_readStyle (Function ''styleFunction''),
        Console_log ''gsStyle'' (Object [(''errors'', Array [str ''not a style''])]),
        Console_error ''Geostyler errors: '' (Array [str ''not a style''])]"
  by (simp add: translate_defs demo_defs)

subsection \<open>C6: the formula of the scale\<close>

text \<open>
  Claim C6, as amended. For units with an entry \<open>mpu\<close> in the table, the scale of a
  number \<open>r\<close> is \<open>r * mpu * 39.37 * (25.4 / 0.28)\<close>, multiplied from the left in
  binary64 arithmetic, and the scale of a non-empty string is that of the number
  \<^verbatim>\<open>parseFloat\<close> reads from it. Where \<open>mpu\<close> is finite the scale of 0 equals 0. The
  scale of \<open>2 * r\<close> equals twice the scale of \<open>r\<close> where \<open>r\<close> and \<open>mpu\<close> are finite,
  \<open>2 * r\<close> does not overflow and the product \<open>r * mpu\<close> does not underflow: it is an
  infinity or of magnitude \<open>2^-1021\<close> or more.
\<close>
theorem scale_formula_zero_linear:
  assumes "METERS_PER_UNIT env u = Some mpu"
  shows "getScaleForResolution env (Num r) (Str u) = Inr (Num (scale_formula r mpu))
       \<and> (s \<noteq> [] \<longrightarrow> getScaleForResolution env (Str s) (Str u)
                          = Inr (Num (scale_formula (parseFloat_string env s) mpu)))
       \<and> (is_finite mpu \<longrightarrow>
            (\<exists>z. getScaleForResolution env (Num (js_int 0)) (Str u) = Inr (Num z)
                 \<and> js_eq z (js_int 0)))
       \<and> (is_double r \<and> is_finite r \<and> is_double mpu \<and> is_finite mpu
            \<and> is_finite (js_mul (js_int 2) r) \<and> no_underflow (js_mul r mpu) \<longrightarrow>
            (\<exists>a b. getScaleForResolution env (Num (js_mul (js_int 2) r)) (Str u) = Inr (Num a)
                 \<and> getScaleForResolution env (Num r) (Str u) = Inr (Num b)
                 \<and> js_eq a (js_mul (js_int 2) b)))"
proof -
  have lk: "lookup_METERS_PER_UNIT env (Str u) = Num mpu"
    using assms by (simp add: lookup_Str)
  have num: "getScaleForResolution env (Num x) (Str u) = Inr (Num (scale_formula x mpu))" for x
    using lk by (rule scale_of_number)
  have "js_eq (scale_formula (js_mul (js_int 2) r) mpu) (js_mul (js_int 2) (scale_formula r mpu))"
    if "is_double r" "is_finite r" "is_double mpu" "is_finite mpu"
       "is_finite (js_mul (js_int 2) r)" "no_underflow (js_mul r mpu)"
    using scale_formula_linear [OF that] by (simp add: js_eq_def)
  then show ?thesis
    using scale_of_string [OF lk] scale_formula_zero [of mpu] by (auto simp: num)
qed

text \<open>The resolutions 0.1, \<^verbatim>\<open>'2.5'\<close> and 0 in feet.\<close>

lemma js_lit_1_10: "js_lit 1 10 = Finite False 7205759403792794 (- 56)"
  by (simp add: js_lit_def ieee_ratio_def ieee_round_def round_shift_def compute_bitlen Let_def)

lemma js_lit_25_10: "js_lit 25 10 = Finite False 5629499534213120 (- 51)"
  by (simp add: js_lit_def ieee_ratio_def ieee_round_def round_shift_def compute_bitlen Let_def)

lemma js_lit_3048_10000: "js_lit 3048 10000 = Finite False 5490788665690109 (- 54)"
  by (simp add: js_lit_def ieee_ratio_def ieee_round_def round_shift_def compute_bitlen Let_def)

lemmas number_defs =
  scale_formula_def inchesPerMeter_value dpi_value js_int_0 js_int_1 js_int_2
  js_lit_1_10 js_lit_25_10 js_lit_3048_10000
  ieee_round_def round_shift_def compute_bitlen Let_def

theorem scale_formula_zero_linear_witness:
  "METERS_PER_UNIT demo_env ''ft'' = Some (js_lit 3048 10000)
   \<and> getScaleForResolution demo_env (Num (js_lit 1 10)) (Str ''ft'')
       = Inr (Num (Finite False 7660125117344833 (- 46)))
   \<and> getScaleForResolution demo_env (Str ''2.5'') (Str ''ft'')
       = Inr (Num (Finite False 5984472747925650 (- 41)))
   \<and> (\<exists>z. getScaleForResolution demo_env (Num (js_int 0)) (Str ''ft'') = Inr (Num z)
          \<and> js_eq z (js_int 0))
   \<and> no_underflow (js_mul (js_lit 1 10) (js_lit 3048 10000))
   \<and> (\<exists>a b. getScaleForResolution demo_env (Num (js_mul (js_int 2) (js_lit 1 10))) (Str ''ft'')
                = Inr (Num a)
          \<and> getScaleForResolution demo_env (Num (js_lit 1 10)) (Str ''ft'') = Inr (Num b)
          \<and> js_eq a (js_mul (js_int 2) b))"
proof -
  have t: "METERS_PER_UNIT demo_env ''ft'' = Some (js_lit 3048 10000)"
    by (simp add: demo_env_def)
  have p: "parseFloat_string demo_env ''2.5'' = js_lit 25 10"
    by (simp add: demo_env_def)
  have v1: "scale_formula (js_lit 1 10) (js_lit 3048 10000) = Finite False 7660125117344833 (- 46)"
    by (simp add: number_defs)
  have v2: "scale_formula (js_lit 25 10) (js_lit 3048 10000) = Finite False 5984472747925650 (- 41)"
    by (simp add: number_defs)
  have h: "is_double (js_lit 1 10)" "is_finite (js_lit 1 10)"
    "is_double (js_lit 3048 10000)" "is_finite (js_lit 3048 10000)"
    "is_finite (js_mul (js_int 2) (js_lit 1 10))"
    "no_underflow (js_mul (js_lit 1 10) (js_lit 3048 10000))"
    by (simp_all add: number_defs)
  from scale_formula_zero_linear [OF t, of "js_lit 1 10" "''2.5''"] h
  have "getScaleForResolution demo_env (Num (js_lit 1 10)) (Str ''ft'')
          = Inr (Num (scale_formula (js_lit 1 10) (js_lit 3048 10000)))"
    and "getScaleForResolution demo_env (Str ''2.5'') (Str ''ft'')
          = Inr (Num (scale_formula (parseFloat_string demo_env ''2.5'') (js_lit 3048 10000)))"
    and "\<exists>z. getScaleForResolution demo_env (Num (js_int 0)) (Str ''ft'') = Inr (Num z)
          \<and> js_eq z (js_int 0)"
    and "\<exists>a b. getScaleForResolution demo_env (Num (js_mul (js_int 2) (js_lit 1 10))) (Str ''ft'')
                = Inr (Num a)
          \<and> getScaleForResolution demo_env (Num (js_lit 1 10)) (Str ''ft'') = Inr (Num b)
          \<and> js_eq a (js_mul (js_int 2) b)"
    by blast+
  with t h(6) show ?thesis unfolding p v1 v2 by blast
qed

text \<open>
  Claim C6 as stated has the scale linear for every resolution. For the smallest
  positive number, \<open>2^-1074\<close>, in metres, the products are rounded in the subnormal
  range: the scale of \<open>2 * r\<close> is \<open>7166 * 2^-1074\<close>, twice the scale of \<open>r\<close> is
  \<open>7076 * 2^-1074\<close>.
\<close>

theorem scale_not_linear_subnormal:
  "METERS_PER_UNIT demo_env ''m'' = Some (js_int 1)
   \<and> js_mul (js_int 2) (Finite False 1 (- 1074)) = Finite False 2 (- 1074)
   \<and> getScaleForResolution demo_env (Num (Finite False 2 (- 1074))) (Str ''m'')
       = Inr (Num (Finite False 7166 (- 1074)))
   \<and> getScaleForResolution demo_env (Num (Finite False 1 (- 1074))) (Str ''m'')
       = Inr (Num (Finite False 3538 (- 1074)))
   \<and> js_mul (js_int 2) (Finite False 3538 (- 1074)) = Finite False 7076 (- 1074)
   \<and> \<not> js_eq (Finite False 7166 (- 1074)) (Finite False 7076 (- 1074))"
proof -
  have "scale_formula (Finite False 2 (- 1074)) (js_int 1) = Finite False 7166 (- 1074)"
    by (simp add: number_defs)
  moreover have "scale_formula (Finite False 1 (- 1074)) (js_int 1) = Finite False 3538 (- 1074)"
    by (simp add: number_defs)
  moreover have "js_mul (js_int 2) (Finite False 1 (- 1074)) = Finite False 2 (- 1074)"
    "js_mul (js_int 2) (Finite False 3538 (- 1074)) = Finite False 7076 (- 1074)"
    by (simp_all add: number_defs)
  ultimately show ?thesis
    by (simp add: demo_scale js_eq_def del: js_mul.simps) (simp add: demo_env_def)
qed

subsection \<open>C7: the descriptor of an OSM layer\<close>

text \<open>
  Claim C7. For a layer with an OSM source the descriptor has the type \<^verbatim>\<open>XYZ\<close>, the
  fixed tile URL template and the fixed attribution, whatever URLs the source has.
\<close>
theorem osm_descriptor_fixed:
  assumes "getSource olLayer = OSM urls"
  shows "\<exists>d. mapOlLayerToInkmap env olLayer = ([], Inr d)
           \<and> get_prop d ''type'' = Inr (str ''XYZ'')
           \<and> get_prop d ''url'' = Inr (str ''https://{a-c}.tile.openstreetmap.org/{z}/{x}/{y}.png'')
           \<and> get_prop d ''attribution'' = Inr (str osm_attribution)"
  using assms by (simp add: mapOlLayerToInkmap_def)

text \<open>An OSM source that has a URL of its own.\<close>

theorem osm_descriptor_fixed_witness:
  "getSource layer_osm = OSM (Some [''https://tiles.example.org/{z}/{x}/{y}.png''])
   \<and> (\<exists>d. mapOlLayerToInkmap demo_env layer_osm = ([], Inr d)
           \<and> get_prop d ''type'' = Inr (str ''XYZ'')
           \<and> get_prop d ''url'' = Inr (str ''https://{a-c}.tile.openstreetmap.org/{z}/{x}/{y}.png'')
           \<and> get_prop d ''attribution'' = Inr (str osm_attribution))"
  using osm_descriptor_fixed [of layer_osm "Some [''https://tiles.example.org/{z}/{x}/{y}.png'']" demo_env]
  by (simp add: layer_osm_def)

subsection \<open>C8: the descriptor of a tiled WMS layer\<close>

text \<open>
  Claim C8. For a layer with a TileWMS source the descriptor has the type \<^verbatim>\<open>WMS\<close>,
  \<^verbatim>\<open>tiled\<close> true, as \<^verbatim>\<open>url\<close> the first URL of the source, or the empty string
  where it has none, and as \<^verbatim>\<open>layer\<close> the \<^verbatim>\<open>LAYERS\<close> parameter of the source, or
  \<^verbatim>\<open>undefined\<close> where the parameters or this one are missing; nothing is thrown.
\<close>
theorem tileWMS_descriptor:
  assumes "getSource olLayer = TileWMS urls params"
  shows "\<exists>d. mapOlLayerToInkmap env olLayer = ([], Inr d)
           \<and> get_prop d ''type'' = Inr (str ''WMS'')
           \<and> get_prop d ''tiled'' = Inr (Prim (Bool True))
           \<and> get_prop d ''url'' = Inr (str (case urls of Some (u # us) \<Rightarrow> u | _ \<Rightarrow> []))
           \<and> get_prop d ''layer'' =
               Inr (case params of
                      None \<Rightarrow> Prim Undefined
                    | Some ps \<Rightarrow> (case map_of ps ''LAYERS'' of None \<Rightarrow> Prim Undefined | Some v \<Rightarrow> v))"
  using assms
  by (simp add: mapOlLayerToInkmap_def first_url_def params_LAYERS_def undefined_value_def
      split: option.splits list.splits)

text \<open>The parameter \<^verbatim>\<open>LAYERS=foo\<close> and the URL \<^verbatim>\<open>http://x/wms\<close>.\<close>

theorem tileWMS_descriptor_witness:
  "getSource layer_tilewms = TileWMS (Some [''http://x/wms'']) (Some [(''LAYERS'', str ''foo'')])
   \<and> (\<exists>d. mapOlLayerToInkmap demo_env layer_tilewms = ([], Inr d)
           \<and> get_prop d ''type'' = Inr (str ''WMS'')
           \<and> get_prop d ''tiled'' = Inr (Prim (Bool True))
           \<and> get_prop d ''url'' = Inr (str ''http://x/wms'')
           \<and> get_prop d ''layer'' = Inr (str ''foo''))"
  using tileWMS_descriptor [of layer_tilewms "Some [''http://x/wms'']" "Some [(''LAYERS'', str ''foo'')]" demo_env]
  by (simp add: layer_tilewms_def)

subsection \<open>C9: the scale calculator returns\<close>

text \<open>
  Claim C9. For a resolution that is a number, a string, a boolean, \<^verbatim>\<open>null\<close> or
  \<^verbatim>\<open>undefined\<close>, and any units, \<^verbatim>\<open>getScaleForResolution\<close> returns a number and
  throws nothing; where the table has no entry for the units, the number is NaN.
\<close>
theorem getScaleForResolution_total:
  assumes "\<forall>d. resolution \<noteq> Symbol d" "\<forall>n. resolution \<noteq> BigInt n"
  shows "(\<exists>x. getScaleForResolution env resolution units = Inr (Num x))
       \<and> (lookup_METERS_PER_UNIT env units = Undefined \<longrightarrow>
            getScaleForResolution env resolution units = Inr (Num NaN))"
  using assms by (intro scale_returns_number) simp_all

text \<open>The resolution 1 in units that the table does not have.\<close>

theorem getScaleForResolution_total_witness:
  "lookup_METERS_PER_UNIT demo_env (Str ''parsecs'') = Undefined
   \<and> getScaleForResolution demo_env (Num (js_int 1)) (Str ''parsecs'') = Inr (Num NaN)"
proof -
  have u: "lookup_METERS_PER_UNIT demo_env (Str ''parsecs'') = Undefined"
    by (simp add: lookup_Str demo_env_def)
  from getScaleForResolution_total [of "Num (js_int 1)" demo_env "Str ''parsecs''"] u
  show ?thesis by simp
qed

subsection \<open>C10: the opacity of a descriptor\<close>

text \<open>
  Claim C10, as amended. The descriptor of a layer with a TileWMS, ImageWMS, WMTS or
  OSM source has an \<^verbatim>\<open>opacity\<close>, which is the opacity of the layer, whatever its
  value. The GeoJSON descriptor of a layer with a vector source has no \<^verbatim>\<open>opacity\<close>.
\<close>
theorem opacity_copied_except_vector:
  assumes "snd (mapOlLayerToInkmap env olLayer) = Inr d"
      and "recognized (getSource olLayer)"
  shows "if is_VectorSource (getSource olLayer)
         then \<not> has_prop d ''opacity''
         else has_prop d ''opacity'' \<and> get_prop d ''opacity'' = Inr (getOpacity olLayer)"
proof (cases "getSource olLayer")
  case (VectorSource features)
  have "\<not> has_prop d' ''opacity''"
    if "after_readStyle [(''type'', str ''GeoJSON''), (''geojson'', g),
          (''style'', undefined_value), (''attribution'', str [])] gs = (evs, Inr d')"
    for g gs evs d'
    using that by (auto simp: after_readStyle_def split: sum.splits)
  then show ?thesis
    using assms VectorSource
    by (auto simp: mapOlLayerToInkmap_def Let_def split: sum.splits prod.splits if_splits)
qed (use assms in \<open>auto simp: mapOlLayerToInkmap_def Let_def split: option.splits\<close>)

text \<open>A tiled WMS layer and a vector layer, both of opacity 0.5.\<close>

theorem opacity_copied_except_vector_witness:
  "(\<exists>d. snd (mapOlLayerToInkmap demo_env layer_tilewms) = Inr d
        \<and> has_prop d ''opacity'' \<and> get_prop d ''opacity'' = Inr half)
   \<and> (\<exists>d. snd (mapOlLayerToInkmap demo_env (layer_vector uniform_style)) = Inr d
        \<and> \<not> has_prop d ''opacity'')"
proof -
  obtain d1 where d1: "snd (mapOlLayerToInkmap demo_env layer_tilewms) = Inr d1"
    by (simp add: translate_defs demo_defs)
  have "recognized (getSource layer_tilewms)" by (simp add: layer_tilewms_def)
  from opacity_copied_except_vector [OF d1 this]
  have 1: "has_prop d1 ''opacity'' \<and> get_prop d1 ''opacity'' = Inr half"
    by (simp add: layer_tilewms_def)
  obtain d2 where d2: "snd (mapOlLayerToInkmap demo_env (layer_vector uniform_style)) = Inr d2"
    by (simp add: translate_defs demo_defs)
  have "recognized (getSource (layer_vector uniform_style))" by (simp add: layer_vector_def)
  from opacity_copied_except_vector [OF d2 this]
  have 2: "\<not> has_prop d2 ''opacity''"
    by (simp add: layer_vector_def)
  from d1 1 d2 2 show ?thesis by blast
qed

text \<open>
  Claim C10 as stated has every recognized variant carry the opacity. The
  descriptor of a vector layer of opacity 0.5 has no such property.
\<close>

theorem vector_descriptor_without_opacity:
  "getOpacity (layer_vector (Prim Null)) = half
   \<and> mapOlLayerToInkmap demo_env (layer_vector (Prim Null))
     = ([], Inr (Object [(''type'', str ''GeoJSON''),
                    (''geojson'', Object [(''type'', str ''FeatureCollection''), (''features'', Array [])]),
                    (''style'', Prim Undefined),
                    (''attribution'', str [])]))
   \<and> \<not> has_prop (Object [(''type'', str ''GeoJSON''),
                    (''geojson'', Object [(''type'', str ''FeatureCollection''), (''features'', Array [])]),
                    (''style'', Prim Undefined),
                    (''attribution'', str [])]) ''opacity''"
  by (simp add: translate_defs demo_defs)

end
